theory Spec2Isabelle
  imports Main "HOL-Library.Word"
begin

unbundle bit_operations_syntax

section \<open>Enumerations used by BattlegroundMgr.cpp\<close>

text \<open>
  The enumerations are declared in headers; BattlegroundMgr.cpp uses their enumerators by
  name. Each is a datatype with one constructor per enumerator the file names, and one more
  constructor for every other value of the type (the file casts integers to
  \<^verbatim>\<open>BattlegroundTypeId\<close> and \<^verbatim>\<open>BattlegroundQueueTypeId\<close>), tagged by a number.
\<close>

type_synonym uint8 = "8 word"
type_synonym uint32 = "32 word"
type_synonym uint64 = "64 word"

datatype BattlegroundTypeId =
    BATTLEGROUND_TYPE_NONE
  | BATTLEGROUND_AV
  | BATTLEGROUND_WS
  | BATTLEGROUND_AB
  | BATTLEGROUND_NA
  | BATTLEGROUND_BE
  | BATTLEGROUND_AA
  | BATTLEGROUND_EY
  | BATTLEGROUND_RL
  | BATTLEGROUND_SA
  | BATTLEGROUND_DS
  | BATTLEGROUND_RV
  | BATTLEGROUND_IC
  | BATTLEGROUND_RB
  | BATTLEGROUND_TP
  | BATTLEGROUND_BFG
  | BATTLEGROUND_TYPE_OTHER nat

datatype BattlegroundQueueTypeId =
    BATTLEGROUND_QUEUE_NONE
  | BATTLEGROUND_QUEUE_AV
  | BATTLEGROUND_QUEUE_WS
  | BATTLEGROUND_QUEUE_AB
  | BATTLEGROUND_QUEUE_EY
  | BATTLEGROUND_QUEUE_SA
  | BATTLEGROUND_QUEUE_IC
  | BATTLEGROUND_QUEUE_TP
  | BATTLEGROUND_QUEUE_BFG
  | BATTLEGROUND_QUEUE_RB
  | BATTLEGROUND_QUEUE_2v2
  | BATTLEGROUND_QUEUE_3v3
  | BATTLEGROUND_QUEUE_5v5
  | BATTLEGROUND_QUEUE_OTHER nat

datatype HolidayIds =
    HOLIDAY_NONE
  | HOLIDAY_CALL_TO_ARMS_AV
  | HOLIDAY_CALL_TO_ARMS_EY
  | HOLIDAY_CALL_TO_ARMS_WS
  | HOLIDAY_CALL_TO_ARMS_SA
  | HOLIDAY_CALL_TO_ARMS_AB
  | HOLIDAY_CALL_TO_ARMS_IC
  | HOLIDAY_CALL_TO_ARMS_TP
  | HOLIDAY_CALL_TO_ARMS_BFG
  | HOLIDAY_OTHER nat

text \<open>
  Modelled from the spec: the enumeration \<^verbatim>\<open>ArenaType\<close> is declared outside this file; the
  spec gives the arena team sizes as 2, 3 and 5, and \<^verbatim>\<open>BGArenaType\<close> returns them as the team
  size of the three arena queues.
\<close>

definition ARENA_TYPE_2v2 :: uint8 where "ARENA_TYPE_2v2 = 2"
definition ARENA_TYPE_3v3 :: uint8 where "ARENA_TYPE_3v3 = 3"
definition ARENA_TYPE_5v5 :: uint8 where "ARENA_TYPE_5v5 = 5"

section \<open>Queue classification\<close>

definition IsArenaType :: "BattlegroundTypeId \<Rightarrow> bool" where
  "IsArenaType bgTypeId \<longleftrightarrow>
     bgTypeId = BATTLEGROUND_AA
     \<or> bgTypeId = BATTLEGROUND_BE
     \<or> bgTypeId = BATTLEGROUND_NA
     \<or> bgTypeId = BATTLEGROUND_DS
     \<or> bgTypeId = BATTLEGROUND_RV
     \<or> bgTypeId = BATTLEGROUND_RL"

definition arena_queue :: "uint8 \<Rightarrow> BattlegroundQueueTypeId" where
  "arena_queue arenaType =
     (if arenaType = ARENA_TYPE_2v2 then BATTLEGROUND_QUEUE_2v2
      else if arenaType = ARENA_TYPE_3v3 then BATTLEGROUND_QUEUE_3v3
      else if arenaType = ARENA_TYPE_5v5 then BATTLEGROUND_QUEUE_5v5
      else BATTLEGROUND_QUEUE_NONE)"

fun BGQueueTypeId :: "BattlegroundTypeId \<Rightarrow> uint8 \<Rightarrow> BattlegroundQueueTypeId" where
  "BGQueueTypeId BATTLEGROUND_AB arenaType = BATTLEGROUND_QUEUE_AB"
| "BGQueueTypeId BATTLEGROUND_AV arenaType = BATTLEGROUND_QUEUE_AV"
| "BGQueueTypeId BATTLEGROUND_EY arenaType = BATTLEGROUND_QUEUE_EY"
| "BGQueueTypeId BATTLEGROUND_IC arenaType = BATTLEGROUND_QUEUE_IC"
| "BGQueueTypeId BATTLEGROUND_TP arenaType = BATTLEGROUND_QUEUE_TP"
| "BGQueueTypeId BATTLEGROUND_BFG arenaType = BATTLEGROUND_QUEUE_BFG"
| "BGQueueTypeId BATTLEGROUND_RB arenaType = BATTLEGROUND_QUEUE_RB"
| "BGQueueTypeId BATTLEGROUND_SA arenaType = BATTLEGROUND_QUEUE_SA"
| "BGQueueTypeId BATTLEGROUND_WS arenaType = BATTLEGROUND_QUEUE_WS"
| "BGQueueTypeId BATTLEGROUND_AA arenaType = arena_queue arenaType"
| "BGQueueTypeId BATTLEGROUND_BE arenaType = arena_queue arenaType"
| "BGQueueTypeId BATTLEGROUND_DS arenaType = arena_queue arenaType"
| "BGQueueTypeId BATTLEGROUND_NA arenaType = arena_queue arenaType"
| "BGQueueTypeId BATTLEGROUND_RL arenaType = arena_queue arenaType"
| "BGQueueTypeId BATTLEGROUND_RV arenaType = arena_queue arenaType"
| "BGQueueTypeId BATTLEGROUND_TYPE_NONE arenaType = BATTLEGROUND_QUEUE_NONE"
| "BGQueueTypeId (BATTLEGROUND_TYPE_OTHER n) arenaType = BATTLEGROUND_QUEUE_NONE"

text \<open>
  The default branch of \<^verbatim>\<open>BGTemplateId\<close> returns \<^verbatim>\<open>BattlegroundTypeId(0)\<close>, "used for unknown
  template"; the enumerator with value 0 is the none sentinel.
\<close>

fun BGTemplateId :: "BattlegroundQueueTypeId \<Rightarrow> BattlegroundTypeId" where
  "BGTemplateId BATTLEGROUND_QUEUE_WS = BATTLEGROUND_WS"
| "BGTemplateId BATTLEGROUND_QUEUE_AB = BATTLEGROUND_AB"
| "BGTemplateId BATTLEGROUND_QUEUE_AV = BATTLEGROUND_AV"
| "BGTemplateId BATTLEGROUND_QUEUE_EY = BATTLEGROUND_EY"
| "BGTemplateId BATTLEGROUND_QUEUE_SA = BATTLEGROUND_SA"
| "BGTemplateId BATTLEGROUND_QUEUE_IC = BATTLEGROUND_IC"
| "BGTemplateId BATTLEGROUND_QUEUE_TP = BATTLEGROUND_TP"
| "BGTemplateId BATTLEGROUND_QUEUE_BFG = BATTLEGROUND_BFG"
| "BGTemplateId BATTLEGROUND_QUEUE_RB = BATTLEGROUND_RB"
| "BGTemplateId BATTLEGROUND_QUEUE_2v2 = BATTLEGROUND_AA"
| "BGTemplateId BATTLEGROUND_QUEUE_3v3 = BATTLEGROUND_AA"
| "BGTemplateId BATTLEGROUND_QUEUE_5v5 = BATTLEGROUND_AA"
| "BGTemplateId BATTLEGROUND_QUEUE_NONE = BATTLEGROUND_TYPE_NONE"
| "BGTemplateId (BATTLEGROUND_QUEUE_OTHER n) = BATTLEGROUND_TYPE_NONE"

fun BGArenaType :: "BattlegroundQueueTypeId \<Rightarrow> uint8" where
  "BGArenaType BATTLEGROUND_QUEUE_2v2 = ARENA_TYPE_2v2"
| "BGArenaType BATTLEGROUND_QUEUE_3v3 = ARENA_TYPE_3v3"
| "BGArenaType BATTLEGROUND_QUEUE_5v5 = ARENA_TYPE_5v5"
| "BGArenaType q = 0"

section \<open>Holiday mapping\<close>

fun BGTypeToWeekendHolidayId :: "BattlegroundTypeId \<Rightarrow> HolidayIds" where
  "BGTypeToWeekendHolidayId BATTLEGROUND_AV = HOLIDAY_CALL_TO_ARMS_AV"
| "BGTypeToWeekendHolidayId BATTLEGROUND_EY = HOLIDAY_CALL_TO_ARMS_EY"
| "BGTypeToWeekendHolidayId BATTLEGROUND_WS = HOLIDAY_CALL_TO_ARMS_WS"
| "BGTypeToWeekendHolidayId BATTLEGROUND_SA = HOLIDAY_CALL_TO_ARMS_SA"
| "BGTypeToWeekendHolidayId BATTLEGROUND_AB = HOLIDAY_CALL_TO_ARMS_AB"
| "BGTypeToWeekendHolidayId BATTLEGROUND_IC = HOLIDAY_CALL_TO_ARMS_IC"
| "BGTypeToWeekendHolidayId BATTLEGROUND_TP = HOLIDAY_CALL_TO_ARMS_TP"
| "BGTypeToWeekendHolidayId BATTLEGROUND_BFG = HOLIDAY_CALL_TO_ARMS_BFG"
| "BGTypeToWeekendHolidayId bgTypeId = HOLIDAY_NONE"

fun WeekendHolidayIdToBGType :: "HolidayIds \<Rightarrow> BattlegroundTypeId" where
  "WeekendHolidayIdToBGType HOLIDAY_CALL_TO_ARMS_AV = BATTLEGROUND_AV"
| "WeekendHolidayIdToBGType HOLIDAY_CALL_TO_ARMS_EY = BATTLEGROUND_EY"
| "WeekendHolidayIdToBGType HOLIDAY_CALL_TO_ARMS_WS = BATTLEGROUND_WS"
| "WeekendHolidayIdToBGType HOLIDAY_CALL_TO_ARMS_SA = BATTLEGROUND_SA"
| "WeekendHolidayIdToBGType HOLIDAY_CALL_TO_ARMS_AB = BATTLEGROUND_AB"
| "WeekendHolidayIdToBGType HOLIDAY_CALL_TO_ARMS_IC = BATTLEGROUND_IC"
| "WeekendHolidayIdToBGType HOLIDAY_CALL_TO_ARMS_TP = BATTLEGROUND_TP"
| "WeekendHolidayIdToBGType HOLIDAY_CALL_TO_ARMS_BFG = BATTLEGROUND_BFG"
| "WeekendHolidayIdToBGType holiday = BATTLEGROUND_TYPE_NONE"

section \<open>Data model of the manager\<close>

text \<open>
  What the headers fix and this file only names: the objective-update interval, the bounds of
  the queue and bracket enumerations, the integer value of each enumerator and the
  conversion of an integer to the enumeration type. The functions below take them as a
  parameter. The two configuration values come from \<^verbatim>\<open>sWorld->getIntConfig\<close>.
\<close>

record header_constants =
  BATTLEGROUND_OBJECTIVE_UPDATE_INTERVAL :: uint32
  MAX_BATTLEGROUND_QUEUE_TYPES :: nat
  BG_BRACKET_ID_FIRST :: nat
  MAX_BATTLEGROUND_BRACKETS :: nat
  QueueTypeId_value :: "BattlegroundQueueTypeId \<Rightarrow> nat"
  QueueTypeId_cast :: "nat \<Rightarrow> BattlegroundQueueTypeId"
  TypeId_value :: "BattlegroundTypeId \<Rightarrow> nat"
  TypeId_cast :: "nat \<Rightarrow> BattlegroundTypeId"

record world_config =
  CONFIG_ARENA_MAX_RATING_DIFFERENCE :: uint32
  CONFIG_ARENA_RATED_UPDATE_TIMER :: uint32

datatype BattlegroundStatus =
    STATUS_NONE
  | STATUS_WAIT_QUEUE
  | STATUS_WAIT_JOIN
  | STATUS_IN_PROGRESS
  | STATUS_WAIT_LEAVE

text \<open>
  Modelled from the spec: the class \<^verbatim>\<open>Battleground\<close> (the match object) is declared and
  implemented outside this file. The record holds the fields the spec lists for a
  MatchInstance and that the manager reads or sets through the object's getters and setters:
  \<^verbatim>\<open>GetTypeID\<close>, \<^verbatim>\<open>SetRandomTypeID\<close>, \<^verbatim>\<open>GetInstanceID\<close>/\<^verbatim>\<open>SetInstanceID\<close>,
  \<^verbatim>\<open>GetClientInstanceID\<close>/\<^verbatim>\<open>SetClientInstanceID\<close>, \<^verbatim>\<open>GetBracketId\<close>/\<^verbatim>\<open>SetBracket\<close>,
  \<^verbatim>\<open>SetArenaType\<close>, \<^verbatim>\<open>SetRated\<close>, \<^verbatim>\<open>SetRandom\<close>, \<^verbatim>\<open>SetStatus\<close>, \<^verbatim>\<open>isArena\<close>,
  \<^verbatim>\<open>GetElapsedTime\<close> and the completion flag read by \<^verbatim>\<open>ToBeDeleted\<close>.
\<close>

type_synonym BattlegroundBracketId = nat

record Battleground =
  m_TypeID :: BattlegroundTypeId
  m_RandomTypeID :: BattlegroundTypeId
  m_InstanceID :: uint32
  m_ClientInstanceID :: uint32
  m_BracketId :: BattlegroundBracketId
  m_ArenaType :: uint8
  m_IsRated :: bool
  m_IsRandom :: bool
  m_IsArena :: bool
  m_Status :: BattlegroundStatus
  m_ElapsedTime :: uint32
  m_SetDeleteThis :: bool

definition ToBeDeleted :: "Battleground \<Rightarrow> bool" where
  "ToBeDeleted bg = m_SetDeleteThis bg"

text \<open>
  Modelled from the spec: \<^verbatim>\<open>Battleground::Reset\<close> is the lifecycle contract's
  \<^verbatim>\<open>resetToWaiting()\<close>; the call site's comment says it sets the status to
  \<^verbatim>\<open>status_wait_queue\<close>.
\<close>

definition Reset :: "Battleground \<Rightarrow> Battleground" where
  "Reset bg = bg\<lparr>m_Status := STATUS_WAIT_QUEUE\<rparr>"

text \<open>
  The manager holds pointers to match objects, and one object can be pointed to from
  several places. The match objects are kept in a memory of their own: the address of an
  object is its position in the list, \<^verbatim>\<open>new\<close> appends an object, \<^verbatim>\<open>delete\<close> leaves \<open>None\<close> at
  its address. A pointer that is not at an object cannot be dereferenced.
\<close>

datatype fault = InvalidIteratorDereference | IteratorPastEnd | InvalidPointerDereference

type_synonym addr = nat
type_synonym object_memory = "Battleground option list"

definition object_at :: "object_memory \<Rightarrow> addr \<Rightarrow> Battleground option" where
  "object_at mem p = (if p < length mem then mem ! p else None)"

definition and_then :: "fault + 'a \<Rightarrow> ('a \<Rightarrow> fault + 'b) \<Rightarrow> fault + 'b" where
  "and_then r f = (case r of Inl e \<Rightarrow> Inl e | Inr x \<Rightarrow> f x)"

text \<open>
  \<^verbatim>\<open>std::map<uint32, Battleground*>\<close> is an association list in increasing key order, so that
  \<^verbatim>\<open>begin()\<close> is its head; \<^verbatim>\<open>std::set<uint32>\<close> is an increasing list.
\<close>

type_synonym BattlegroundContainer = "(uint32 \<times> addr) list"
type_synonym BattlegroundClientIdsContainer = "uint32 list"

fun container_assign :: "uint32 \<Rightarrow> 'v \<Rightarrow> (uint32 \<times> 'v) list \<Rightarrow> (uint32 \<times> 'v) list" where
  "container_assign k v [] = [(k, v)]"
| "container_assign k v ((k', v') # rest) =
     (if k < k' then (k, v) # (k', v') # rest
      else if k = k' then (k, v) # rest
      else (k', v') # container_assign k v rest)"


fun ids_insert :: "uint32 \<Rightarrow> BattlegroundClientIdsContainer \<Rightarrow> BattlegroundClientIdsContainer" where
  "ids_insert x [] = [x]"
| "ids_insert x (y # ys) =
     (if x < y then x # y # ys
      else if x = y then y # ys
      else y # ids_insert x ys)"

fun ids_erase :: "uint32 \<Rightarrow> BattlegroundClientIdsContainer \<Rightarrow> BattlegroundClientIdsContainer" where
  "ids_erase x [] = []"
| "ids_erase x (y # ys) = (if x = y then ys else y # ids_erase x ys)"

text \<open>
  \<^verbatim>\<open>BattlegroundData\<close>: the instances of one type and its array of client-id sets, indexed
  by bracket; a bracket id is a value of its enumeration and so within the array. (The third
  member, the free-slot queue, is used by no function modelled here.)
\<close>

record BattlegroundData =
  m_Battlegrounds :: BattlegroundContainer
  m_ClientBattlegroundIds :: "BattlegroundBracketId \<Rightarrow> BattlegroundClientIdsContainer"

definition empty_BattlegroundData :: BattlegroundData where
  "empty_BattlegroundData = \<lparr>m_Battlegrounds = [], m_ClientBattlegroundIds = (\<lambda>_. [])\<rparr>"

text \<open>
  \<^verbatim>\<open>BattlegroundDataContainer\<close> is a \<^verbatim>\<open>std::map\<close> keyed by the type id: an association list
  in the map's iteration order, which is the order of the enumerators' values.
  \<open>store_modify\<close> is \<^verbatim>\<open>operator[]\<close> followed by a change of the entry: a key that is not in
  the map gets an empty entry at its place in that order.
\<close>

type_synonym BattlegroundDataContainer = "(BattlegroundTypeId \<times> BattlegroundData) list"

fun store_find :: "BattlegroundTypeId \<Rightarrow> BattlegroundDataContainer \<Rightarrow> BattlegroundData option" where
  "store_find t [] = None"
| "store_find t ((k, d) # rest) = (if k = t then Some d else store_find t rest)"

fun store_modify ::
  "header_constants \<Rightarrow> BattlegroundTypeId \<Rightarrow> (BattlegroundData \<Rightarrow> BattlegroundData) \<Rightarrow>
   BattlegroundDataContainer \<Rightarrow> BattlegroundDataContainer" where
  "store_modify h t f [] = [(t, f empty_BattlegroundData)]"
| "store_modify h t f ((k, d) # rest) =
     (if k = t then (k, f d) # rest
      else if TypeId_value h t < TypeId_value h k
      then (t, f empty_BattlegroundData) # (k, d) # rest
      else (k, d) # store_modify h t f rest)"

text \<open>
  The template catalog. Of a \<^verbatim>\<open>BattlegroundTemplate\<close> the record holds what the functions
  below read: \<open>tmpl_Id\<close> is its member \<^verbatim>\<open>Id\<close>, \<open>MapID\<close> is \<^verbatim>\<open>BattlemasterEntry->MapID\<close>, an
  array of map ids in which -1 ends the used part, and \<open>tmpl_IsArena\<close> is the value of
  \<^verbatim>\<open>IsArena()\<close>. The two catalog maps of the manager are \<^verbatim>\<open>_battlegroundTemplates\<close> and
  \<^verbatim>\<open>_battlegroundMapTemplates\<close>. The last field of the state, \<open>objects\<close>, is the memory of
  the match objects.
\<close>

record BattlegroundTemplate =
  tmpl_Id :: BattlegroundTypeId
  Weight :: uint8
  MapID :: "int list"
  tmpl_IsArena :: bool

record BattlegroundMgr =
  bgDataStore :: BattlegroundDataContainer
  m_QueueUpdateScheduler :: "uint64 list"
  m_NextRatedArenaUpdate :: uint32
  m_UpdateTimer :: uint32
  battlegroundTemplates :: "BattlegroundTypeId \<rightharpoonup> BattlegroundTemplate"
  battlegroundMapTemplates :: "int \<rightharpoonup> BattlegroundTemplate"
  objects :: object_memory

text \<open>
  \<^verbatim>\<open>new\<close> with the value of the new object, and a setter called through a pointer.
\<close>

definition new_object :: "Battleground \<Rightarrow> BattlegroundMgr \<Rightarrow> addr \<times> BattlegroundMgr" where
  "new_object bg s = (length (objects s), s\<lparr>objects := objects s @ [Some bg]\<rparr>)"

definition set_through ::
  "addr \<Rightarrow> (Battleground \<Rightarrow> Battleground) \<Rightarrow> BattlegroundMgr \<Rightarrow> fault + BattlegroundMgr" where
  "set_through p f s =
     (case object_at (objects s) p of
        None \<Rightarrow> Inl InvalidPointerDereference
      | Some bg \<Rightarrow> Inr (s\<lparr>objects := (objects s)[p := Some (f bg)]\<rparr>))"

section \<open>Instance pool\<close>

fun find_in_store :: "uint32 \<Rightarrow> BattlegroundDataContainer \<Rightarrow> addr option" where
  "find_in_store instanceId [] = None"
| "find_in_store instanceId ((k, d) # rest) =
     (case map_of (m_Battlegrounds d) instanceId of
        Some bg \<Rightarrow> Some bg
      | None \<Rightarrow> find_in_store instanceId rest)"

text \<open>The two lookups return a pointer, \<open>None\<close> for \<^verbatim>\<open>NULL\<close>.\<close>

definition GetBattleground ::
  "BattlegroundMgr \<Rightarrow> uint32 \<Rightarrow> BattlegroundTypeId \<Rightarrow> addr option" where
  "GetBattleground s instanceId bgTypeId =
     (if instanceId = 0 then None
      else if bgTypeId = BATTLEGROUND_TYPE_NONE then find_in_store instanceId (bgDataStore s)
      else (case store_find bgTypeId (bgDataStore s) of
              None \<Rightarrow> None
            | Some d \<Rightarrow> map_of (m_Battlegrounds d) instanceId))"

definition GetBattlegroundTemplate ::
  "BattlegroundMgr \<Rightarrow> BattlegroundTypeId \<Rightarrow> addr option" where
  "GetBattlegroundTemplate s bgTypeId =
     (case store_find bgTypeId (bgDataStore s) of
        None \<Rightarrow> None
      | Some d \<Rightarrow> (case m_Battlegrounds d of [] \<Rightarrow> None | (k, bg) # rest \<Rightarrow> Some bg))"

text \<open>
  The loop of \<^verbatim>\<open>CreateClientVisibleInstanceId\<close>. Its iterator \<^verbatim>\<open>itr\<close> is initialised to
  \<^verbatim>\<open>clientIds.begin()\<close> and no statement advances it (the \<^verbatim>\<open>for\<close> header has no increment), so
  every round compares with the first element of the set. The result is \<^verbatim>\<open>lastId\<close> at the
  exit of the loop.
\<close>

function CreateClientVisibleInstanceId_loop ::
  "BattlegroundClientIdsContainer \<Rightarrow> uint32 \<Rightarrow> uint32" where
  "CreateClientVisibleInstanceId_loop [] lastId = lastId"
| "CreateClientVisibleInstanceId_loop (first # rest) lastId =
     (if lastId + 1 \<noteq> first then lastId + 1
      else CreateClientVisibleInstanceId_loop (first # rest) first)"
  by pat_completeness auto
termination
  by (relation "measure (\<lambda>(ids, lastId). if lastId = hd ids then 0 else 1)") auto

definition CreateClientVisibleInstanceId ::
  "header_constants \<Rightarrow> BattlegroundTypeId \<Rightarrow> BattlegroundBracketId \<Rightarrow> BattlegroundMgr \<Rightarrow>
   uint32 \<times> BattlegroundMgr" where
  "CreateClientVisibleInstanceId h bgTypeId bracket_id s =
     (if IsArenaType bgTypeId then (0, s)
      else
        let clientIds = (case store_find bgTypeId (bgDataStore s) of
                           Some d \<Rightarrow> m_ClientBattlegroundIds d bracket_id
                         | None \<Rightarrow> []);
            lastId = CreateClientVisibleInstanceId_loop clientIds 0 + 1
        in (lastId,
            s\<lparr>bgDataStore :=
                store_modify h bgTypeId
                  (\<lambda>d. d\<lparr>m_ClientBattlegroundIds :=
                            (m_ClientBattlegroundIds d)(bracket_id := ids_insert lastId clientIds)\<rparr>)
                  (bgDataStore s)\<rparr>))"

text \<open>
  \<^verbatim>\<open>AddBattleground\<close> takes a pointer, \<open>None\<close> for \<^verbatim>\<open>NULL\<close>, reads the type id and the instance
  id through it, and files the pointer under them.
\<close>

definition AddBattleground ::
  "header_constants \<Rightarrow> addr option \<Rightarrow> BattlegroundMgr \<Rightarrow> fault + BattlegroundMgr" where
  "AddBattleground h bg s =
     (case bg of
        None \<Rightarrow> Inr s
      | Some p \<Rightarrow>
          (case object_at (objects s) p of
             None \<Rightarrow> Inl InvalidPointerDereference
           | Some b \<Rightarrow>
               Inr (s\<lparr>bgDataStore :=
                        store_modify h (m_TypeID b)
                          (\<lambda>d. d\<lparr>m_Battlegrounds :=
                                   container_assign (m_InstanceID b) p (m_Battlegrounds d)\<rparr>)
                          (bgDataStore s)\<rparr>)))"


text \<open>
  Modelled from the spec: the constructors of the match classes are outside this file. A
  match object made from a template is a MatchInstance of the template's kind with nothing
  set yet.
\<close>

definition new_Battleground :: "BattlegroundTemplate \<Rightarrow> Battleground" where
  "new_Battleground bgTemplate =
     \<lparr>m_TypeID = tmpl_Id bgTemplate, m_RandomTypeID = BATTLEGROUND_TYPE_NONE,
      m_InstanceID = 0, m_ClientInstanceID = 0, m_BracketId = 0, m_ArenaType = 0,
      m_IsRated = False, m_IsRandom = False, m_IsArena = tmpl_IsArena bgTemplate,
      m_Status = STATUS_NONE, m_ElapsedTime = 0, m_SetDeleteThis = False\<rparr>"

fun CreateBattleground_switch :: "BattlegroundTypeId \<Rightarrow> BattlegroundTemplate \<Rightarrow> Battleground option" where
  "CreateBattleground_switch BATTLEGROUND_AV t = Some (new_Battleground t)"
| "CreateBattleground_switch BATTLEGROUND_WS t = Some (new_Battleground t)"
| "CreateBattleground_switch BATTLEGROUND_AB t = Some (new_Battleground t)"
| "CreateBattleground_switch BATTLEGROUND_NA t = Some (new_Battleground t)"
| "CreateBattleground_switch BATTLEGROUND_BE t = Some (new_Battleground t)"
| "CreateBattleground_switch BATTLEGROUND_EY t = Some (new_Battleground t)"
| "CreateBattleground_switch BATTLEGROUND_RL t = Some (new_Battleground t)"
| "CreateBattleground_switch BATTLEGROUND_SA t = Some (new_Battleground t)"
| "CreateBattleground_switch BATTLEGROUND_DS t = Some (new_Battleground t)"
| "CreateBattleground_switch BATTLEGROUND_RV t = Some (new_Battleground t)"
| "CreateBattleground_switch BATTLEGROUND_IC t = Some (new_Battleground t)"
| "CreateBattleground_switch BATTLEGROUND_AA t = Some (new_Battleground t)"
| "CreateBattleground_switch BATTLEGROUND_RB t = Some ((new_Battleground t)\<lparr>m_IsRandom := True\<rparr>)"
| "CreateBattleground_switch BATTLEGROUND_TP t = Some (new_Battleground t)"
| "CreateBattleground_switch BATTLEGROUND_BFG t = Some (new_Battleground t)"
| "CreateBattleground_switch BATTLEGROUND_TYPE_NONE t = None"
| "CreateBattleground_switch (BATTLEGROUND_TYPE_OTHER n) t = None"

text \<open>
  \<^verbatim>\<open>CreateBattleground\<close>. \<open>CreateBattleground_new\<close> is the block under \<^verbatim>\<open>if (!bg)\<close>: it gives
  the pointer \<^verbatim>\<open>bg\<close> that the statements after the block use, or none when the switch
  returns \<^verbatim>\<open>false\<close>. When \<^verbatim>\<open>GetBattlegroundTemplate\<close> has found an object, the statements after
  the block set its instance id to 0 and file that same object under key 0, whatever the
  key it was found under.
\<close>

definition CreateBattleground_new ::
  "header_constants \<Rightarrow> BattlegroundTemplate \<Rightarrow> BattlegroundMgr \<Rightarrow>
   fault + (addr \<times> BattlegroundMgr) option" where
  "CreateBattleground_new h bgTemplate s =
     (case CreateBattleground_switch (tmpl_Id bgTemplate) bgTemplate of
        None \<Rightarrow> Inr None
      | Some b \<Rightarrow>
          (let (bg, s0) = new_object b s in
           and_then (set_through bg (\<lambda>b. b\<lparr>m_InstanceID := 0\<rparr>) s0) (\<lambda>s1.
           and_then (AddBattleground h (Some bg) s1) (\<lambda>s2.
           Inr (Some (bg, s2))))))"

definition CreateBattleground ::
  "header_constants \<Rightarrow> BattlegroundTemplate \<Rightarrow> BattlegroundMgr \<Rightarrow> fault + (bool \<times> BattlegroundMgr)" where
  "CreateBattleground h bgTemplate s =
     and_then
       (case GetBattlegroundTemplate s (tmpl_Id bgTemplate) of
          Some bg \<Rightarrow> Inr (Some (bg, s))
        | None \<Rightarrow> CreateBattleground_new h bgTemplate s)
       (\<lambda>r. case r of
               None \<Rightarrow> Inr (False, s)
             | Some (bg, s2) \<Rightarrow>
                 and_then (set_through bg (\<lambda>b. b\<lparr>m_InstanceID := 0\<rparr>) s2) (\<lambda>s3.
                 and_then (AddBattleground h (Some bg) s3) (\<lambda>s4.
                 Inr (True, s4))))"

section \<open>Weighted random selection and instance creation\<close>

text \<open>
  Modelled from the spec: the two catalog lookups \<^verbatim>\<open>GetBattlegroundTemplateByTypeId\<close> and
  \<^verbatim>\<open>GetBattlegroundTemplateByMapId\<close> are declared outside this file; the catalog is indexed by
  match-type id and by map id, and a lookup that finds nothing yields the absence value.
\<close>

definition GetBattlegroundTemplateByTypeId ::
  "BattlegroundMgr \<Rightarrow> BattlegroundTypeId \<Rightarrow> BattlegroundTemplate option" where
  "GetBattlegroundTemplateByTypeId s bgTypeId = battlegroundTemplates s bgTypeId"

definition GetBattlegroundTemplateByMapId ::
  "BattlegroundMgr \<Rightarrow> int \<Rightarrow> BattlegroundTemplate option" where
  "GetBattlegroundTemplateByMapId s mapId = battlegroundMapTemplates s mapId"

text \<open>The loop of \<^verbatim>\<open>GetRandomBG\<close> that fills \<^verbatim>\<open>ids\<close> and \<^verbatim>\<open>weights\<close>, as a list of pairs.\<close>

fun GetRandomBG_candidates :: "BattlegroundMgr \<Rightarrow> int list \<Rightarrow> (BattlegroundTypeId \<times> uint8) list" where
  "GetRandomBG_candidates s [] = []"
| "GetRandomBG_candidates s (mapId # rest) =
     (if mapId = -1 then []
      else (case GetBattlegroundTemplateByMapId s mapId of
              Some bg \<Rightarrow> (tmpl_Id bg, Weight bg) # GetRandomBG_candidates s rest
            | None \<Rightarrow> GetRandomBG_candidates s rest))"

text \<open>
  \<^verbatim>\<open>SelectRandomWeightedContainerElement\<close> is outside this file and draws at random: the
  parameter \<open>select\<close> is the position in \<^verbatim>\<open>ids\<close> of the iterator it returns. \<^verbatim>\<open>GetRandomBG\<close>
  dereferences that iterator; an iterator that is not at an element of \<^verbatim>\<open>ids\<close> cannot be
  dereferenced.
\<close>

definition deref_at :: "'a list \<Rightarrow> nat \<Rightarrow> fault + 'a" where
  "deref_at xs pos = (if pos < length xs then Inr (xs ! pos) else Inl InvalidIteratorDereference)"

definition GetRandomBG ::
  "(BattlegroundTypeId list \<Rightarrow> uint8 list \<Rightarrow> nat) \<Rightarrow> BattlegroundMgr \<Rightarrow> BattlegroundTypeId \<Rightarrow>
   fault + BattlegroundTypeId" where
  "GetRandomBG select s bgTypeId =
     (case GetBattlegroundTemplateByTypeId s bgTypeId of
        Some bgTemplate \<Rightarrow>
          let cands = GetRandomBG_candidates s (MapID bgTemplate);
              ids = map fst cands;
              weights = map snd cands
          in deref_at ids (select ids weights)
      | None \<Rightarrow> Inr BATTLEGROUND_TYPE_NONE)"

text \<open>
  The switch of \<^verbatim>\<open>CreateNewBattleground\<close>: whether the kind has a case that copies the
  template object (the other kinds return \<^verbatim>\<open>NULL\<close>).
\<close>

fun CreateNewBattleground_switch :: "BattlegroundTypeId \<Rightarrow> bool" where
  "CreateNewBattleground_switch BATTLEGROUND_AV = True"
| "CreateNewBattleground_switch BATTLEGROUND_WS = True"
| "CreateNewBattleground_switch BATTLEGROUND_AB = True"
| "CreateNewBattleground_switch BATTLEGROUND_NA = True"
| "CreateNewBattleground_switch BATTLEGROUND_BE = True"
| "CreateNewBattleground_switch BATTLEGROUND_EY = True"
| "CreateNewBattleground_switch BATTLEGROUND_RL = True"
| "CreateNewBattleground_switch BATTLEGROUND_SA = True"
| "CreateNewBattleground_switch BATTLEGROUND_DS = True"
| "CreateNewBattleground_switch BATTLEGROUND_RV = True"
| "CreateNewBattleground_switch BATTLEGROUND_IC = True"
| "CreateNewBattleground_switch BATTLEGROUND_TP = True"
| "CreateNewBattleground_switch BATTLEGROUND_BFG = True"
| "CreateNewBattleground_switch BATTLEGROUND_RB = False"
| "CreateNewBattleground_switch BATTLEGROUND_AA = False"
| "CreateNewBattleground_switch BATTLEGROUND_TYPE_NONE = False"
| "CreateNewBattleground_switch (BATTLEGROUND_TYPE_OTHER n) = False"

text \<open>
  \<^verbatim>\<open>CreateNewBattleground\<close>. \<open>newInstanceId\<close> is the value of \<^verbatim>\<open>sMapMgr->GenerateInstanceId()\<close>,
  \<open>bracket_id\<close> that of \<^verbatim>\<open>bracketEntry->GetBracketId()\<close>. The result is a fault, or the
  pointer returned (\<open>None\<close> for \<^verbatim>\<open>NULL\<close>) with the new state. The copy of the template object
  is a new object that only the local pointer \<^verbatim>\<open>bg\<close> refers to while the setters are called
  on it; the model applies the setters in their order to the copied value and puts the
  result at the new address.
\<close>

definition CreateNewBattleground ::
  "header_constants \<Rightarrow> (BattlegroundTypeId list \<Rightarrow> uint8 list \<Rightarrow> nat) \<Rightarrow> uint32 \<Rightarrow>
   BattlegroundTypeId \<Rightarrow> BattlegroundBracketId \<Rightarrow> uint8 \<Rightarrow> bool \<Rightarrow> BattlegroundMgr \<Rightarrow>
   fault + (addr option \<times> BattlegroundMgr)" where
  "CreateNewBattleground h select newInstanceId originalBgTypeId bracket_id arenaType isRated s =
     (case GetRandomBG select s originalBgTypeId of
        Inl f \<Rightarrow> Inl f
      | Inr bgTypeId \<Rightarrow>
          (case GetBattlegroundTemplate s bgTypeId of
             None \<Rightarrow> Inr (None, s)
           | Some bg_template \<Rightarrow>
               if \<not> CreateNewBattleground_switch bgTypeId then Inr (None, s)
               else
                 (case object_at (objects s) bg_template of
                    None \<Rightarrow> Inl InvalidPointerDereference
                  | Some bg \<Rightarrow>
                      let isRandom = (bgTypeId \<noteq> originalBgTypeId \<and> \<not> m_IsArena bg);
                          bg1 = bg\<lparr>m_BracketId := bracket_id\<rparr>;
                          bg2 = bg1\<lparr>m_InstanceID := newInstanceId\<rparr>;
                          (clientId, s1) =
                            CreateClientVisibleInstanceId h originalBgTypeId bracket_id s;
                          bg3 = bg2\<lparr>m_ClientInstanceID := clientId\<rparr>;
                          bg4 = Reset bg3;
                          bg5 = bg4\<lparr>m_Status := STATUS_WAIT_JOIN\<rparr>;
                          bg6 = bg5\<lparr>m_ArenaType := arenaType\<rparr>;
                          bg7 = bg6\<lparr>m_RandomTypeID := bgTypeId\<rparr>;
                          bg8 = bg7\<lparr>m_IsRated := isRated\<rparr>;
                          bg9 = bg8\<lparr>m_IsRandom := isRandom\<rparr>;
                          (p, s2) = new_object bg9 s1
                      in Inr (Some p, s2))))"

section \<open>Deferred scheduler and the tick\<close>

definition scheduleId ::
  "header_constants \<Rightarrow> uint32 \<Rightarrow> uint8 \<Rightarrow> BattlegroundQueueTypeId \<Rightarrow> BattlegroundTypeId \<Rightarrow>
   BattlegroundBracketId \<Rightarrow> uint64" where
  "scheduleId h arenaMatchmakerRating arenaType bgQueueTypeId bgTypeId bracket_id =
     push_bit 32 (ucast arenaMatchmakerRating)
     OR push_bit 24 (ucast arenaType)
     OR push_bit 16 (of_nat (QueueTypeId_value h bgQueueTypeId))
     OR push_bit 8 (of_nat (TypeId_value h bgTypeId))
     OR of_nat bracket_id"

definition ScheduleQueueUpdate ::
  "header_constants \<Rightarrow> uint32 \<Rightarrow> uint8 \<Rightarrow> BattlegroundQueueTypeId \<Rightarrow> BattlegroundTypeId \<Rightarrow>
   BattlegroundBracketId \<Rightarrow> BattlegroundMgr \<Rightarrow> BattlegroundMgr" where
  "ScheduleQueueUpdate h arenaMatchmakerRating arenaType bgQueueTypeId bgTypeId bracket_id s =
     (let k = scheduleId h arenaMatchmakerRating arenaType bgQueueTypeId bgTypeId bracket_id
      in if k \<notin> set (m_QueueUpdateScheduler s)
         then s\<lparr>m_QueueUpdateScheduler := m_QueueUpdateScheduler s @ [k]\<rparr>
         else s)"

text \<open>
  The queues are outside this file. A call that \<^verbatim>\<open>Update\<close> makes on
  \<^verbatim>\<open>m_BattlegroundQueues[index]\<close> is recorded with its index and its arguments; \<^verbatim>\<open>Update\<close>
  returns the calls in the order it makes them.
\<close>

datatype queue_call =
    UpdateEvents nat uint32
  | BattlegroundQueueUpdate nat uint32 BattlegroundTypeId BattlegroundBracketId uint8 bool uint32

text \<open>
  The instance sweep: the inner loop over the entries after the first one. Each round
  calls the object's own update through the entry's pointer; when the object reports
  completion the entry is erased, the client id is released and the object is deleted.
\<close>

fun sweep_instances ::
  "(uint32 \<Rightarrow> Battleground \<Rightarrow> Battleground) \<Rightarrow> uint32 \<Rightarrow> BattlegroundContainer \<Rightarrow>
   (BattlegroundBracketId \<Rightarrow> BattlegroundClientIdsContainer) \<Rightarrow> object_memory \<Rightarrow>
   fault + (BattlegroundContainer \<times> (BattlegroundBracketId \<Rightarrow> BattlegroundClientIdsContainer)
            \<times> object_memory)" where
  "sweep_instances bg_Update timer [] clientIds mem = Inr ([], clientIds, mem)"
| "sweep_instances bg_Update timer ((instanceId, p) # rest) clientIds mem =
     (case object_at mem p of
        None \<Rightarrow> Inl InvalidPointerDereference
      | Some bg0 \<Rightarrow>
          let bg = bg_Update timer bg0 in
          if ToBeDeleted bg then
            let clients = clientIds (m_BracketId bg);
                clientIds' = (if clients \<noteq> []
                              then clientIds(m_BracketId bg := ids_erase (m_ClientInstanceID bg) clients)
                              else clientIds)
            in sweep_instances bg_Update timer rest clientIds' (mem[p := None])
          else
            (case sweep_instances bg_Update timer rest clientIds (mem[p := Some bg]) of
               Inl f \<Rightarrow> Inl f
             | Inr (rest', clientIds', mem') \<Rightarrow> Inr ((instanceId, p) # rest', clientIds', mem')))"

text \<open>
  One round of the outer loop. The inner loop starts at \<^verbatim>\<open>++bgs.begin()\<close>; when the map has
  no entry, \<^verbatim>\<open>begin()\<close> is \<^verbatim>\<open>end()\<close> and cannot be incremented.
\<close>

definition sweep_data ::
  "(uint32 \<Rightarrow> Battleground \<Rightarrow> Battleground) \<Rightarrow> uint32 \<Rightarrow> BattlegroundData \<Rightarrow> object_memory \<Rightarrow>
   fault + (BattlegroundData \<times> object_memory)" where
  "sweep_data bg_Update timer d mem =
     (case m_Battlegrounds d of
        [] \<Rightarrow> Inl IteratorPastEnd
      | first # rest \<Rightarrow>
          (case sweep_instances bg_Update timer rest (m_ClientBattlegroundIds d) mem of
             Inl f \<Rightarrow> Inl f
           | Inr (rest', clientIds', mem') \<Rightarrow>
               Inr (d\<lparr>m_Battlegrounds := first # rest', m_ClientBattlegroundIds := clientIds'\<rparr>,
                    mem')))"

fun sweep_store ::
  "(uint32 \<Rightarrow> Battleground \<Rightarrow> Battleground) \<Rightarrow> uint32 \<Rightarrow> BattlegroundDataContainer \<Rightarrow>
   object_memory \<Rightarrow> fault + (BattlegroundDataContainer \<times> object_memory)" where
  "sweep_store bg_Update timer [] mem = Inr ([], mem)"
| "sweep_store bg_Update timer ((k, d) # rest) mem =
     (case sweep_data bg_Update timer d mem of
        Inl f \<Rightarrow> Inl f
      | Inr (d', mem1) \<Rightarrow>
          (case sweep_store bg_Update timer rest mem1 of
             Inl f \<Rightarrow> Inl f
           | Inr (rest', mem2) \<Rightarrow> Inr ((k, d') # rest', mem2)))"

definition scheduled_call :: "header_constants \<Rightarrow> uint32 \<Rightarrow> uint64 \<Rightarrow> queue_call" where
  "scheduled_call h diff x =
     (let arenaMMRating = (ucast (drop_bit 32 x) :: uint32);
          arenaType = (ucast (drop_bit 24 x AND 255) :: uint8);
          bgQueueTypeId = unat (drop_bit 16 x AND 255);
          bgTypeId = TypeId_cast h (unat (drop_bit 8 x AND 255));
          bracket_id = unat (x AND 255)
      in BattlegroundQueueUpdate bgQueueTypeId diff bgTypeId bracket_id arenaType
           (arenaMMRating > 0) arenaMMRating)"

text \<open>
  The loop over the drained entries. Its counter \<^verbatim>\<open>i\<close> is a \<^verbatim>\<open>uint8\<close>, compared with
  \<^verbatim>\<open>scheduled.size()\<close>; \<^verbatim>\<open>i++\<close> wraps from 255 to 0. The function is partial: \<open>None\<close> is a
  loop that does not end.
\<close>

partial_function (option) dispatch_scheduled ::
  "header_constants \<Rightarrow> uint32 \<Rightarrow> uint64 list \<Rightarrow> uint8 \<Rightarrow> queue_call list \<Rightarrow> queue_call list option" where
  "dispatch_scheduled h diff scheduled i calls =
     (if unat i < length scheduled
      then dispatch_scheduled h diff scheduled (i + 1)
             (calls @ [scheduled_call h diff (scheduled ! unat i)])
      else Some calls)"

declare dispatch_scheduled.simps [code]

definition forced_calls :: "header_constants \<Rightarrow> uint32 \<Rightarrow> queue_call list" where
  "forced_calls h diff =
     concat (map (\<lambda>qtype.
               map (\<lambda>bracket.
                      BattlegroundQueueUpdate qtype diff BATTLEGROUND_AA bracket
                        (BGArenaType (QueueTypeId_cast h qtype)) True 0)
                   [BG_BRACKET_ID_FIRST h ..< MAX_BATTLEGROUND_BRACKETS h])
             [QueueTypeId_value h BATTLEGROUND_QUEUE_2v2 ..<
              Suc (QueueTypeId_value h BATTLEGROUND_QUEUE_5v5)])"

text \<open>The last block of \<^verbatim>\<open>Update\<close>: the calls it makes and the new countdown.\<close>

definition rated_arena_update ::
  "header_constants \<Rightarrow> world_config \<Rightarrow> uint32 \<Rightarrow> uint32 \<Rightarrow> queue_call list \<times> uint32" where
  "rated_arena_update h cfg diff nextRatedArenaUpdate =
     (if CONFIG_ARENA_MAX_RATING_DIFFERENCE cfg \<noteq> 0 \<and> CONFIG_ARENA_RATED_UPDATE_TIMER cfg \<noteq> 0
      then (if nextRatedArenaUpdate < diff
            then (forced_calls h diff, CONFIG_ARENA_RATED_UPDATE_TIMER cfg)
            else ([], nextRatedArenaUpdate - diff))
      else ([], nextRatedArenaUpdate))"

text \<open>The first block of \<^verbatim>\<open>Update\<close>: the accumulator and the sweep it gates.\<close>

definition update_instances ::
  "header_constants \<Rightarrow> (uint32 \<Rightarrow> Battleground \<Rightarrow> Battleground) \<Rightarrow> uint32 \<Rightarrow> BattlegroundMgr \<Rightarrow>
   fault + BattlegroundMgr" where
  "update_instances h bg_Update diff s =
     (let timer = m_UpdateTimer s + diff in
      if timer > BATTLEGROUND_OBJECTIVE_UPDATE_INTERVAL h
      then (case sweep_store bg_Update timer (bgDataStore s) (objects s) of
              Inl f \<Rightarrow> Inl f
            | Inr (store, mem) \<Rightarrow>
                Inr (s\<lparr>bgDataStore := store, objects := mem, m_UpdateTimer := 0\<rparr>))
      else Inr (s\<lparr>m_UpdateTimer := timer\<rparr>))"

text \<open>
  \<^verbatim>\<open>Update\<close>. \<open>bg_Update\<close> is the match object's own update, which is outside this file. The
  result is \<open>None\<close> when the call does not return, a fault, or the new state with the calls
  made on the queues.
\<close>

definition Update ::
  "header_constants \<Rightarrow> world_config \<Rightarrow> (uint32 \<Rightarrow> Battleground \<Rightarrow> Battleground) \<Rightarrow> uint32 \<Rightarrow>
   BattlegroundMgr \<Rightarrow> (fault + (BattlegroundMgr \<times> queue_call list)) option" where
  "Update h cfg bg_Update diff s =
     (case update_instances h bg_Update diff s of
        Inl f \<Rightarrow> Some (Inl f)
      | Inr s1 \<Rightarrow>
          let events = map (\<lambda>qtype. UpdateEvents qtype diff)
                         [QueueTypeId_value h BATTLEGROUND_QUEUE_NONE ..< MAX_BATTLEGROUND_QUEUE_TYPES h]
          in (case (if m_QueueUpdateScheduler s1 \<noteq> []
                    then dispatch_scheduled h diff (m_QueueUpdateScheduler s1) 0 []
                    else Some []) of
                None \<Rightarrow> None
              | Some dispatched \<Rightarrow>
                  let s2 = s1\<lparr>m_QueueUpdateScheduler := []\<rparr>;
                      (forced, next) = rated_arena_update h cfg diff (m_NextRatedArenaUpdate s2)
                  in Some (Inr (s2\<lparr>m_NextRatedArenaUpdate := next\<rparr>, events @ dispatched @ forced))))"

text \<open>The constructor of the manager, and a sequence of calls of \<^verbatim>\<open>ScheduleQueueUpdate\<close>.\<close>

definition BattlegroundMgr_ctor :: "world_config \<Rightarrow> BattlegroundMgr" where
  "BattlegroundMgr_ctor cfg =
     \<lparr>bgDataStore = [], m_QueueUpdateScheduler = [],
      m_NextRatedArenaUpdate = CONFIG_ARENA_RATED_UPDATE_TIMER cfg, m_UpdateTimer = 0,
      battlegroundTemplates = Map.empty, battlegroundMapTemplates = Map.empty,
      objects = []\<rparr>"

fun ScheduleQueueUpdates ::
  "header_constants \<Rightarrow>
   (uint32 \<times> uint8 \<times> BattlegroundQueueTypeId \<times> BattlegroundTypeId \<times> BattlegroundBracketId) list \<Rightarrow>
   BattlegroundMgr \<Rightarrow> BattlegroundMgr" where
  "ScheduleQueueUpdates h [] s = s"
| "ScheduleQueueUpdates h ((rating, arenaType, bgQueueTypeId, bgTypeId, bracket_id) # calls) s =
     ScheduleQueueUpdates h calls
       (ScheduleQueueUpdate h rating arenaType bgQueueTypeId bgTypeId bracket_id s)"


text \<open>
  The sweep dereferences the pointers of the entries after the first of each type: the
  swept pointers, in the order of the sweep. \<open>sweep_ready\<close> is the condition on the pool
  under which the sweep finds an object behind each of them: every type of the store has an
  entry, no object is pointed to by two of the swept entries, and every swept pointer is at
  an object.
\<close>

definition swept_pointers :: "BattlegroundDataContainer \<Rightarrow> addr list" where
  "swept_pointers store = concat (map (\<lambda>e. map snd (tl (m_Battlegrounds (snd e)))) store)"

definition sweep_ready :: "BattlegroundMgr \<Rightarrow> bool" where
  "sweep_ready s \<longleftrightarrow>
     list_all (\<lambda>e. m_Battlegrounds (snd e) \<noteq> []) (bgDataStore s)
     \<and> distinct (swept_pointers (bgDataStore s))
     \<and> list_all (\<lambda>p. object_at (objects s) p \<noteq> None) (swept_pointers (bgDataStore s))"

section \<open>Example inputs\<close>

text \<open>
  One numbering of the enumerators, a configuration, and a catalog with one battleground
  kind, one arena kind and the random aggregate, used where a theorem is applied to a
  concrete input.
\<close>

fun example_QueueTypeId_value :: "BattlegroundQueueTypeId \<Rightarrow> nat" where
  "example_QueueTypeId_value BATTLEGROUND_QUEUE_NONE = 0"
| "example_QueueTypeId_value BATTLEGROUND_QUEUE_AV = 1"
| "example_QueueTypeId_value BATTLEGROUND_QUEUE_WS = 2"
| "example_QueueTypeId_value BATTLEGROUND_QUEUE_AB = 3"
| "example_QueueTypeId_value BATTLEGROUND_QUEUE_EY = 4"
| "example_QueueTypeId_value BATTLEGROUND_QUEUE_SA = 5"
| "example_QueueTypeId_value BATTLEGROUND_QUEUE_IC = 6"
| "example_QueueTypeId_value BATTLEGROUND_QUEUE_TP = 7"
| "example_QueueTypeId_value BATTLEGROUND_QUEUE_BFG = 8"
| "example_QueueTypeId_value BATTLEGROUND_QUEUE_RB = 9"
| "example_QueueTypeId_value BATTLEGROUND_QUEUE_2v2 = 10"
| "example_QueueTypeId_value BATTLEGROUND_QUEUE_3v3 = 11"
| "example_QueueTypeId_value BATTLEGROUND_QUEUE_5v5 = 12"
| "example_QueueTypeId_value (BATTLEGROUND_QUEUE_OTHER n) = n"

definition example_QueueTypeId_cast :: "nat \<Rightarrow> BattlegroundQueueTypeId" where
  "example_QueueTypeId_cast n =
     (if n = 0 then BATTLEGROUND_QUEUE_NONE
      else if n = 1 then BATTLEGROUND_QUEUE_AV
      else if n = 2 then BATTLEGROUND_QUEUE_WS
      else if n = 3 then BATTLEGROUND_QUEUE_AB
      else if n = 4 then BATTLEGROUND_QUEUE_EY
      else if n = 5 then BATTLEGROUND_QUEUE_SA
      else if n = 6 then BATTLEGROUND_QUEUE_IC
      else if n = 7 then BATTLEGROUND_QUEUE_TP
      else if n = 8 then BATTLEGROUND_QUEUE_BFG
      else if n = 9 then BATTLEGROUND_QUEUE_RB
      else if n = 10 then BATTLEGROUND_QUEUE_2v2
      else if n = 11 then BATTLEGROUND_QUEUE_3v3
      else if n = 12 then BATTLEGROUND_QUEUE_5v5
      else BATTLEGROUND_QUEUE_OTHER n)"

fun example_TypeId_value :: "BattlegroundTypeId \<Rightarrow> nat" where
  "example_TypeId_value BATTLEGROUND_TYPE_NONE = 0"
| "example_TypeId_value BATTLEGROUND_AV = 1"
| "example_TypeId_value BATTLEGROUND_WS = 2"
| "example_TypeId_value BATTLEGROUND_AB = 3"
| "example_TypeId_value BATTLEGROUND_NA = 4"
| "example_TypeId_value BATTLEGROUND_BE = 5"
| "example_TypeId_value BATTLEGROUND_AA = 6"
| "example_TypeId_value BATTLEGROUND_EY = 7"
| "example_TypeId_value BATTLEGROUND_RL = 8"
| "example_TypeId_value BATTLEGROUND_SA = 9"
| "example_TypeId_value BATTLEGROUND_DS = 10"
| "example_TypeId_value BATTLEGROUND_RV = 11"
| "example_TypeId_value BATTLEGROUND_IC = 30"
| "example_TypeId_value BATTLEGROUND_RB = 32"
| "example_TypeId_value BATTLEGROUND_TP = 108"
| "example_TypeId_value BATTLEGROUND_BFG = 120"
| "example_TypeId_value (BATTLEGROUND_TYPE_OTHER n) = n"

definition example_TypeId_cast :: "nat \<Rightarrow> BattlegroundTypeId" where
  "example_TypeId_cast n =
     (if n = 0 then BATTLEGROUND_TYPE_NONE
      else if n = 1 then BATTLEGROUND_AV
      else if n = 2 then BATTLEGROUND_WS
      else if n = 3 then BATTLEGROUND_AB
      else if n = 4 then BATTLEGROUND_NA
      else if n = 5 then BATTLEGROUND_BE
      else if n = 6 then BATTLEGROUND_AA
      else if n = 7 then BATTLEGROUND_EY
      else if n = 8 then BATTLEGROUND_RL
      else if n = 9 then BATTLEGROUND_SA
      else if n = 10 then BATTLEGROUND_DS
      else if n = 11 then BATTLEGROUND_RV
      else if n = 30 then BATTLEGROUND_IC
      else if n = 32 then BATTLEGROUND_RB
      else if n = 108 then BATTLEGROUND_TP
      else if n = 120 then BATTLEGROUND_BFG
      else BATTLEGROUND_TYPE_OTHER n)"

definition example_header :: header_constants where
  "example_header =
     \<lparr>BATTLEGROUND_OBJECTIVE_UPDATE_INTERVAL = 1000,
      MAX_BATTLEGROUND_QUEUE_TYPES = 13,
      BG_BRACKET_ID_FIRST = 0,
      MAX_BATTLEGROUND_BRACKETS = 2,
      QueueTypeId_value = example_QueueTypeId_value,
      QueueTypeId_cast = example_QueueTypeId_cast,
      TypeId_value = example_TypeId_value,
      TypeId_cast = example_TypeId_cast\<rparr>"

definition example_config :: world_config where
  "example_config =
     \<lparr>CONFIG_ARENA_MAX_RATING_DIFFERENCE = 150, CONFIG_ARENA_RATED_UPDATE_TIMER = 5000\<rparr>"

definition example_template_WS :: BattlegroundTemplate where
  "example_template_WS =
     \<lparr>tmpl_Id = BATTLEGROUND_WS, Weight = 1, MapID = [489, -1], tmpl_IsArena = False\<rparr>"

definition example_template_NA :: BattlegroundTemplate where
  "example_template_NA =
     \<lparr>tmpl_Id = BATTLEGROUND_NA, Weight = 1, MapID = [559, -1], tmpl_IsArena = True\<rparr>"

definition example_template_RB :: BattlegroundTemplate where
  "example_template_RB =
     \<lparr>tmpl_Id = BATTLEGROUND_RB, Weight = 1, MapID = [30, 489, 529, -1], tmpl_IsArena = False\<rparr>"

text \<open>
  \<open>example_register\<close> is one round of \<^verbatim>\<open>LoadBattlegroundTemplates\<close> as far as the pool is
  concerned: the call of \<^verbatim>\<open>CreateBattleground\<close> for the row's template. The manager after
  its constructor and after the rows of the three example templates have been read: each
  has its template instance, and the two kinds with a single map are indexed by it.
\<close>

definition example_register :: "BattlegroundTemplate \<Rightarrow> BattlegroundMgr \<Rightarrow> BattlegroundMgr" where
  "example_register bgTemplate s =
     (case CreateBattleground example_header bgTemplate s of
        Inr (created, s') \<Rightarrow> s'
      | Inl f \<Rightarrow> s)"

definition example_mgr :: BattlegroundMgr where
  "example_mgr =
     (example_register example_template_RB
        (example_register example_template_NA
           (example_register example_template_WS (BattlegroundMgr_ctor example_config))))
     \<lparr>battlegroundTemplates :=
        [BATTLEGROUND_WS \<mapsto> example_template_WS, BATTLEGROUND_NA \<mapsto> example_template_NA,
         BATTLEGROUND_RB \<mapsto> example_template_RB],
      battlegroundMapTemplates := [489 \<mapsto> example_template_WS, 559 \<mapsto> example_template_NA]\<rparr>"

text \<open>
  The manager when the only row that \<^verbatim>\<open>LoadBattlegroundTemplates\<close> has kept is the one of the
  random aggregate (the rows of the concrete kinds are disabled or dropped): the aggregate
  has its catalog entry and its template instance, it has more than one map and so no entry
  in the index by map, and none of its maps has one.
\<close>

definition example_mgr_only_RB :: BattlegroundMgr where
  "example_mgr_only_RB =
     (example_register example_template_RB (BattlegroundMgr_ctor example_config))
     \<lparr>battlegroundTemplates := [BATTLEGROUND_RB \<mapsto> example_template_RB]\<rparr>"

text \<open>
  A match object's update for the examples: it adds the elapsed time and reports completion
  once two seconds have passed. \<open>example_create\<close> creates a Warsong instance under the given
  instance id and adds it to the pool; its result is the client-visible id of the instance
  and the new state. \<open>example_mgr_live\<close> is the example manager with one live Warsong
  instance, of instance id 7.
\<close>

definition example_bg_Update :: "uint32 \<Rightarrow> Battleground \<Rightarrow> Battleground" where
  "example_bg_Update diff bg =
     bg\<lparr>m_ElapsedTime := m_ElapsedTime bg + diff,
        m_SetDeleteThis := (m_ElapsedTime bg + diff > 2000)\<rparr>"

definition example_create :: "uint32 \<Rightarrow> BattlegroundMgr \<Rightarrow> (uint32 \<times> BattlegroundMgr) option" where
  "example_create instanceId s =
     (case CreateNewBattleground example_header (\<lambda>ids weights. 0) instanceId BATTLEGROUND_WS 0 0
             False s of
        Inr (Some bg, s') \<Rightarrow>
          (case (object_at (objects s') bg, AddBattleground example_header (Some bg) s') of
             (Some b, Inr s'') \<Rightarrow> Some (m_ClientInstanceID b, s'')
           | _ \<Rightarrow> None)
      | _ \<Rightarrow> None)"

definition example_mgr_live :: BattlegroundMgr where
  "example_mgr_live = (case example_create 7 example_mgr of Some (clientId, s) \<Rightarrow> s | None \<Rightarrow> example_mgr)"

text \<open>
  A run of the pool: a Warsong instance is created and added, a tick of 1.5 seconds passes,
  a second instance is created and added, a tick of 1.001 seconds retires the first, and a
  third instance is created. The result is the client-visible ids of the three instances.
\<close>

definition example_tick :: "uint32 \<Rightarrow> BattlegroundMgr \<Rightarrow> BattlegroundMgr option" where
  "example_tick diff s =
     (case Update example_header example_config example_bg_Update diff s of
        Some (Inr (s', calls)) \<Rightarrow> Some s'
      | _ \<Rightarrow> None)"

definition example_three_instances :: "(uint32 \<times> uint32 \<times> uint32 \<times> bool) option" where
  "example_three_instances =
     (case example_create 7 example_mgr of
        None \<Rightarrow> None
      | Some (first, s1) \<Rightarrow>
     (case example_tick 1500 s1 of
        None \<Rightarrow> None
      | Some s2 \<Rightarrow>
     (case example_create 8 s2 of
        None \<Rightarrow> None
      | Some (second, s3) \<Rightarrow>
     (case example_tick 1001 s3 of
        None \<Rightarrow> None
      | Some s4 \<Rightarrow>
     (case example_create 9 s4 of
        None \<Rightarrow> None
      | Some (third, s5) \<Rightarrow>
          Some (first, second, third,
                GetBattleground s4 7 BATTLEGROUND_WS = None
                \<and> GetBattleground s4 8 BATTLEGROUND_WS \<noteq> None))))))"

text \<open>
  The example manager after 256 calls of \<^verbatim>\<open>ScheduleQueueUpdate\<close> for the 2v2 arena queue with
  the matchmaker ratings 0 to 255.
\<close>

definition example_mgr_256 :: BattlegroundMgr where
  "example_mgr_256 =
     ScheduleQueueUpdates example_header
       (map (\<lambda>rating. (of_nat rating, ARENA_TYPE_2v2, BATTLEGROUND_QUEUE_2v2, BATTLEGROUND_AA, 0))
            [0..<256])
       example_mgr"



section \<open>Auxiliary facts about the containers and the catalog\<close>





lemma object_at_update:
  "object_at (mem[p := v]) q = (if q = p \<and> p < length mem then v else object_at mem q)"
  by (auto simp: object_at_def)

lemma object_at_Some_less: "object_at mem p = Some b \<Longrightarrow> p < length mem"
  by (auto simp: object_at_def split: if_splits)

lemma object_at_append_new: "object_at (mem @ [v]) (length mem) = v"
  by (simp add: object_at_def)

lemma CreateClientVisibleInstanceId_loop_first:
  "CreateClientVisibleInstanceId_loop ids 0 =
     (case ids of [] \<Rightarrow> 0 | first # rest \<Rightarrow> if first = 1 then 2 else 1)"
  by (cases ids) auto

lemma CreateClientVisibleInstanceId_value:
  "\<not> IsArenaType bgTypeId \<Longrightarrow>
   fst (CreateClientVisibleInstanceId h bgTypeId bracket_id s) =
     (case (case store_find bgTypeId (bgDataStore s) of
              Some d \<Rightarrow> m_ClientBattlegroundIds d bracket_id
            | None \<Rightarrow> []) of
        [] \<Rightarrow> 1
      | first # rest \<Rightarrow> if first = 1 then 3 else 2)"
  by (simp add: CreateClientVisibleInstanceId_def CreateClientVisibleInstanceId_loop_first Let_def
           split: list.splits)

lemma and_then_Inr_iff:
  "and_then r f = Inr y \<longleftrightarrow> (\<exists>x. r = Inr x \<and> f x = Inr y)"
  by (cases r) (simp_all add: and_then_def)

lemma set_through_Inr:
  "set_through p f s = Inr s' \<longleftrightarrow>
     (\<exists>b. object_at (objects s) p = Some b \<and> s' = s\<lparr>objects := (objects s)[p := Some (f b)]\<rparr>)"
  by (auto simp: set_through_def split: option.splits)

lemma AddBattleground_Inr:
  "AddBattleground h (Some p) s = Inr s' \<longleftrightarrow>
     (\<exists>b. object_at (objects s) p = Some b
          \<and> s' = s\<lparr>bgDataStore :=
                     store_modify h (m_TypeID b)
                       (\<lambda>d. d\<lparr>m_Battlegrounds :=
                                container_assign (m_InstanceID b) p (m_Battlegrounds d)\<rparr>)
                       (bgDataStore s)\<rparr>)"
  by (auto simp: AddBattleground_def split: option.splits)

lemma CreateBattleground_result:
  assumes "CreateBattleground h bgTemplate s = Inr (True, s')"
  shows "\<exists>p b s3. object_at (objects s3) p = Some b \<and> m_InstanceID b = 0
           \<and> AddBattleground h (Some p) s3 = Inr s'
           \<and> battlegroundTemplates s3 = battlegroundTemplates s
           \<and> battlegroundMapTemplates s3 = battlegroundMapTemplates s
           \<and> m_QueueUpdateScheduler s3 = m_QueueUpdateScheduler s
           \<and> m_UpdateTimer s3 = m_UpdateTimer s
           \<and> m_NextRatedArenaUpdate s3 = m_NextRatedArenaUpdate s"
proof -
  from assms obtain p s2 s3 where
    r: "(case GetBattlegroundTemplate s (tmpl_Id bgTemplate) of
          Some bg \<Rightarrow> Inr (Some (bg, s))
        | None \<Rightarrow> CreateBattleground_new h bgTemplate s) = Inr (Some (p, s2))"
    and st: "set_through p (\<lambda>b. b\<lparr>m_InstanceID := 0\<rparr>) s2 = Inr s3"
    and ad: "AddBattleground h (Some p) s3 = Inr s'"
    by (auto simp: CreateBattleground_def and_then_Inr_iff split: option.splits)
  from st obtain b where b: "object_at (objects s2) p = Some b"
    and s3: "s3 = s2\<lparr>objects := (objects s2)[p := Some (b\<lparr>m_InstanceID := 0\<rparr>)]\<rparr>"
    by (auto simp: set_through_Inr)
  from b have "p < length (objects s2)" by (rule object_at_Some_less)
  with s3 have o: "object_at (objects s3) p = Some (b\<lparr>m_InstanceID := 0\<rparr>)"
    by (simp add: object_at_update)
  have f: "battlegroundTemplates s2 = battlegroundTemplates s
           \<and> battlegroundMapTemplates s2 = battlegroundMapTemplates s
           \<and> m_QueueUpdateScheduler s2 = m_QueueUpdateScheduler s
           \<and> m_UpdateTimer s2 = m_UpdateTimer s
           \<and> m_NextRatedArenaUpdate s2 = m_NextRatedArenaUpdate s"
    using r
    by (auto simp: CreateBattleground_new_def and_then_Inr_iff set_through_Inr AddBattleground_Inr
          new_object_def split: option.splits prod.splits)
  show ?thesis
    using o ad f s3
    by (intro exI [of _ p] exI [of _ "b\<lparr>m_InstanceID := 0\<rparr>"] exI [of _ s3]) simp
qed

lemma CreateBattleground_frame:
  assumes "CreateBattleground h bgTemplate s = Inr (r, s')"
  shows "battlegroundTemplates s' = battlegroundTemplates s"
    and "battlegroundMapTemplates s' = battlegroundMapTemplates s"
    and "m_QueueUpdateScheduler s' = m_QueueUpdateScheduler s"
    and "m_UpdateTimer s' = m_UpdateTimer s"
    and "m_NextRatedArenaUpdate s' = m_NextRatedArenaUpdate s"
proof -
  have "battlegroundTemplates s' = battlegroundTemplates s
      \<and> battlegroundMapTemplates s' = battlegroundMapTemplates s
      \<and> m_QueueUpdateScheduler s' = m_QueueUpdateScheduler s
      \<and> m_UpdateTimer s' = m_UpdateTimer s
      \<and> m_NextRatedArenaUpdate s' = m_NextRatedArenaUpdate s"
  proof (cases r)
    case True
    with assms CreateBattleground_result [of h bgTemplate s s'] show ?thesis
      by (auto simp: AddBattleground_Inr)
  next
    case False
    with assms have "s' = s"
      by (auto simp: CreateBattleground_def and_then_Inr_iff split: option.splits)
    then show ?thesis by simp
  qed
  then show "battlegroundTemplates s' = battlegroundTemplates s"
    and "battlegroundMapTemplates s' = battlegroundMapTemplates s"
    and "m_QueueUpdateScheduler s' = m_QueueUpdateScheduler s"
    and "m_UpdateTimer s' = m_UpdateTimer s"
    and "m_NextRatedArenaUpdate s' = m_NextRatedArenaUpdate s"
    by simp_all
qed

lemma example_register_frame [simp]:
  "battlegroundTemplates (example_register t s) = battlegroundTemplates s"
  "battlegroundMapTemplates (example_register t s) = battlegroundMapTemplates s"
  "m_QueueUpdateScheduler (example_register t s) = m_QueueUpdateScheduler s"
  "m_UpdateTimer (example_register t s) = m_UpdateTimer s"
  "m_NextRatedArenaUpdate (example_register t s) = m_NextRatedArenaUpdate s"
  by (auto simp: example_register_def CreateBattleground_frame split: sum.splits)

lemma GetRandomBG_candidates_no_map_template:
  "battlegroundMapTemplates s = Map.empty \<Longrightarrow> GetRandomBG_candidates s mapIds = []"
  by (induction mapIds) (simp_all add: GetBattlegroundTemplateByMapId_def)

lemma GetRandomBG_no_candidate:
  "GetBattlegroundTemplateByTypeId s bgTypeId = Some bgTemplate \<Longrightarrow>
   GetRandomBG_candidates s (MapID bgTemplate) = [] \<Longrightarrow>
   GetRandomBG select s bgTypeId = Inl InvalidIteratorDereference"
  by (simp add: GetRandomBG_def deref_at_def)

lemma ScheduleQueueUpdate_distinct:
  "distinct (m_QueueUpdateScheduler s) \<Longrightarrow>
   distinct (m_QueueUpdateScheduler (ScheduleQueueUpdate h r a q t b s))"
  by (simp add: ScheduleQueueUpdate_def Let_def)

lemma ScheduleQueueUpdates_distinct:
  "distinct (m_QueueUpdateScheduler s) \<Longrightarrow>
   distinct (m_QueueUpdateScheduler (ScheduleQueueUpdates h calls s))"
  by (induction h calls s rule: ScheduleQueueUpdates.induct)
     (simp_all add: ScheduleQueueUpdate_distinct)



section \<open>Auxiliary facts about the tick\<close>

lemma unat_uint8_less: "unat (i :: uint8) < 256"
  using unsigned_less [of i, where 'a = nat] by simp

lemma dispatch_scheduled_Some_length:
  "dispatch_scheduled h diff scheduled i calls = Some y \<Longrightarrow> length scheduled < 256"
proof (rule dispatch_scheduled.raw_induct
         [where P = "\<lambda>h diff scheduled i calls y. length scheduled < 256"])
  fix dispatch :: "header_constants \<Rightarrow> uint32 \<Rightarrow> uint64 list \<Rightarrow> uint8 \<Rightarrow> queue_call list \<Rightarrow> queue_call list option"
    and h diff scheduled i calls y
  assume IH: "\<And>h diff scheduled i calls y.
                 dispatch h diff scheduled i calls = Some y \<Longrightarrow> length scheduled < 256"
    and eq: "(if unat i < length scheduled
              then dispatch h diff scheduled (i + 1)
                     (calls @ [scheduled_call h diff (scheduled ! unat i)])
              else Some calls) = Some y"
  show "length scheduled < 256"
  proof (cases "unat i < length scheduled")
    case True
    with eq have "dispatch h diff scheduled (i + 1)
             (calls @ [scheduled_call h diff (scheduled ! unat i)]) = Some y" by simp
    then show ?thesis by (rule IH)
  next
    case False
    then show ?thesis using unat_uint8_less [of i] by simp
  qed
qed

lemma dispatch_scheduled_diverges:
  "256 \<le> length scheduled \<Longrightarrow> dispatch_scheduled h diff scheduled i calls = None"
  using dispatch_scheduled_Some_length [of h diff scheduled i calls]
  by (cases "dispatch_scheduled h diff scheduled i calls") auto

lemma dispatch_scheduled_returns:
  "length scheduled < 256 \<Longrightarrow> unat i \<le> length scheduled \<Longrightarrow>
   dispatch_scheduled h diff scheduled i calls
     = Some (calls @ map (scheduled_call h diff) (drop (unat i) scheduled))"
proof (induction "length scheduled - unat i" arbitrary: i calls)
  case 0
  then have "unat i = length scheduled" by simp
  then show ?case
    by (subst dispatch_scheduled.simps) simp
next
  case (Suc n)
  then have lt: "unat i < length scheduled" by simp
  with Suc.prems have "unat i + 1 < 256" by simp
  then have u: "unat (i + 1) = unat i + 1"
    by (simp add: unat_word_ariths)
  have "dispatch_scheduled h diff scheduled (i + 1)
          (calls @ [scheduled_call h diff (scheduled ! unat i)])
        = Some ((calls @ [scheduled_call h diff (scheduled ! unat i)])
                @ map (scheduled_call h diff) (drop (unat (i + 1)) scheduled))"
    using Suc lt u by (intro Suc.hyps) simp_all
  moreover have "drop (unat i) scheduled = scheduled ! unat i # drop (unat (i + 1)) scheduled"
    using lt u by (simp add: Cons_nth_drop_Suc)
  ultimately show ?case using lt
    by (subst dispatch_scheduled.simps) simp
qed

lemma dispatch_scheduled_all:
  "dispatch_scheduled h diff scheduled 0 [] =
     (if length scheduled < 256 then Some (map (scheduled_call h diff) scheduled) else None)"
  using dispatch_scheduled_returns [of scheduled 0 h diff "[]"]
        dispatch_scheduled_diverges [of scheduled h diff 0 "[]"]
  by auto

lemma bit_uint32_less: "bit (r :: uint32) n \<Longrightarrow> n < 32"
  using bit_imp_le_length [of r n] by simp

lemma drop_push_rating: "drop_bit 32 (push_bit 32 (ucast (r :: uint32)) :: uint64) = ucast r"
  apply (rule bit_word_eqI) 
  apply (simp add: bit_simps)
  apply (auto dest: bit_uint32_less)
  done

lemma ucast_32_64_inj: "(ucast (a :: uint32) :: uint64) = ucast b \<Longrightarrow> a = b"
proof -
  assume "(ucast a :: uint64) = ucast b"
  then have "(ucast (ucast a :: uint64) :: uint32) = ucast (ucast b :: uint64)" by simp
  then show "a = b" by (simp add: ucast_up_ucast_id is_up)
qed

lemma example_key_rating:
  "drop_bit 32 (scheduleId example_header rating ARENA_TYPE_2v2 BATTLEGROUND_QUEUE_2v2 BATTLEGROUND_AA 0)
     = ucast rating"
  by (simp add: scheduleId_def example_header_def ARENA_TYPE_2v2_def drop_push_rating)

lemma example_key_inj:
  "r < 256 \<Longrightarrow> r' < 256 \<Longrightarrow>
   scheduleId example_header (of_nat r) ARENA_TYPE_2v2 BATTLEGROUND_QUEUE_2v2 BATTLEGROUND_AA 0
     = scheduleId example_header (of_nat r') ARENA_TYPE_2v2 BATTLEGROUND_QUEUE_2v2 BATTLEGROUND_AA 0
   \<Longrightarrow> r = r'"
proof -
  assume r: "r < 256" and r': "r' < 256"
  assume "scheduleId example_header (of_nat r) ARENA_TYPE_2v2 BATTLEGROUND_QUEUE_2v2 BATTLEGROUND_AA 0
     = scheduleId example_header (of_nat r') ARENA_TYPE_2v2 BATTLEGROUND_QUEUE_2v2 BATTLEGROUND_AA 0"
  then have "(ucast (of_nat r :: uint32) :: uint64) = ucast (of_nat r' :: uint32)"
    using example_key_rating [of "of_nat r"] example_key_rating [of "of_nat r'"] by simp
  then have "(of_nat r :: uint32) = of_nat r'" by (rule ucast_32_64_inj)
  then have "unat (of_nat r :: uint32) = unat (of_nat r' :: uint32)" by simp
  with r r' show "r = r'" by (simp add: unat_of_nat)
qed

lemma ScheduleQueueUpdate_frame [simp]:
  "bgDataStore (ScheduleQueueUpdate h r a q t b s) = bgDataStore s"
  "m_UpdateTimer (ScheduleQueueUpdate h r a q t b s) = m_UpdateTimer s"
  "m_NextRatedArenaUpdate (ScheduleQueueUpdate h r a q t b s) = m_NextRatedArenaUpdate s"
  "objects (ScheduleQueueUpdate h r a q t b s) = objects s"
  by (simp_all add: ScheduleQueueUpdate_def Let_def)

lemma ScheduleQueueUpdates_frame [simp]:
  "bgDataStore (ScheduleQueueUpdates h calls s) = bgDataStore s"
  "m_UpdateTimer (ScheduleQueueUpdates h calls s) = m_UpdateTimer s"
  "m_NextRatedArenaUpdate (ScheduleQueueUpdates h calls s) = m_NextRatedArenaUpdate s"
  "objects (ScheduleQueueUpdates h calls s) = objects s"
  by (induction h calls s rule: ScheduleQueueUpdates.induct) simp_all

lemma ScheduleQueueUpdate_set:
  "set (m_QueueUpdateScheduler (ScheduleQueueUpdate h r a q t b s))
     = insert (scheduleId h r a q t b) (set (m_QueueUpdateScheduler s))"
  by (auto simp: ScheduleQueueUpdate_def Let_def)

lemma ScheduleQueueUpdates_set:
  "set (m_QueueUpdateScheduler (ScheduleQueueUpdates h calls s))
     = set (m_QueueUpdateScheduler s) \<union> (\<lambda>(r, a, q, t, b). scheduleId h r a q t b) ` set calls"
  by (induction h calls s rule: ScheduleQueueUpdates.induct)
     (auto simp: ScheduleQueueUpdate_set)

lemma example_mgr_fields [simp]:
  "m_QueueUpdateScheduler example_mgr = []"
  "m_UpdateTimer example_mgr = 0"
  "m_NextRatedArenaUpdate example_mgr = 5000"
  by (simp_all add: example_mgr_def BattlegroundMgr_ctor_def example_config_def)

lemma example_mgr_256_length: "256 \<le> length (m_QueueUpdateScheduler example_mgr_256)"
proof -
  let ?key = "\<lambda>r. scheduleId example_header (of_nat r) ARENA_TYPE_2v2 BATTLEGROUND_QUEUE_2v2
                      BATTLEGROUND_AA 0"
  let ?l = "m_QueueUpdateScheduler example_mgr_256"
  have "inj_on ?key {0..<256}"
    by (rule inj_onI) (simp add: example_key_inj)
  then have "card (?key ` {0..<256}) = 256"
    by (simp add: card_image)
  moreover have "?key ` {0..<256} \<subseteq> set ?l"
    by (simp add: example_mgr_256_def ScheduleQueueUpdates_set image_image)
  then have "card (?key ` {0..<256}) \<le> card (set ?l)"
    by (intro card_mono) simp_all
  moreover have "card (set ?l) \<le> length ?l"
    by (rule card_length)
  ultimately show ?thesis by simp
qed


lemma Update_diverges:
  "update_instances h bg_Update diff s = Inr s1 \<Longrightarrow>
   256 \<le> length (m_QueueUpdateScheduler s) \<Longrightarrow>
   Update h cfg bg_Update diff s = None"
proof -
  assume u: "update_instances h bg_Update diff s = Inr s1"
    and l: "256 \<le> length (m_QueueUpdateScheduler s)"
  from u have "m_QueueUpdateScheduler s1 = m_QueueUpdateScheduler s"
    by (auto simp: update_instances_def Let_def split: if_splits sum.splits)
  with l have "256 \<le> length (m_QueueUpdateScheduler s1)" by simp
  then have "dispatch_scheduled h diff (m_QueueUpdateScheduler s1) 0 [] = None"
    and "m_QueueUpdateScheduler s1 \<noteq> []"
    by (simp_all add: dispatch_scheduled_diverges) auto
  with u show ?thesis
    by (simp add: Update_def)
qed

lemma sweep_instances_frame:
  "sweep_instances bg_Update timer es clientIds mem = Inr (es', clientIds', mem') \<Longrightarrow>
   set (map snd es') \<subseteq> set (map snd es)
   \<and> (distinct (map snd es) \<longrightarrow> distinct (map snd es'))
   \<and> length mem' = length mem
   \<and> (\<forall>q. q \<notin> set (map snd es) \<longrightarrow> object_at mem' q = object_at mem q)"
proof (induction es arbitrary: clientIds mem es' clientIds' mem')
  case Nil
  then show ?case by simp
next
  case (Cons e es)
  obtain instanceId p where e: "e = (instanceId, p)" by (cases e)
  from Cons.prems e obtain bg0 where bg0: "object_at mem p = Some bg0"
    by (auto split: option.splits)
  let ?bg = "bg_Update timer bg0"
  show ?case
  proof (cases "ToBeDeleted ?bg")
    case True
    with Cons.prems e bg0 obtain c1 where
      r: "sweep_instances bg_Update timer es c1 (mem[p := None]) = Inr (es', clientIds', mem')"
      by (auto simp: Let_def)
    from Cons.IH [OF r] show ?thesis
      using e by (auto simp: object_at_update)
  next
    case False
    with Cons.prems e bg0 obtain rest' where
      r: "sweep_instances bg_Update timer es clientIds (mem[p := Some ?bg])
            = Inr (rest', clientIds', mem')"
      and es': "es' = (instanceId, p) # rest'"
      by (auto simp: Let_def split: sum.splits)
    from Cons.IH [OF r] show ?thesis
      using e es' by (auto simp: object_at_update)
  qed
qed

lemma sweep_instances_returns:
  "distinct (map snd es) \<Longrightarrow> \<forall>p\<in>set (map snd es). object_at mem p \<noteq> None \<Longrightarrow>
   \<exists>es' clientIds' mem'.
      sweep_instances bg_Update timer es clientIds mem = Inr (es', clientIds', mem')
      \<and> (\<forall>p\<in>set (map snd es'). object_at mem' p \<noteq> None)"
proof (induction es arbitrary: clientIds mem)
  case Nil
  then show ?case by simp
next
  case (Cons e es)
  obtain instanceId p where e: "e = (instanceId, p)" by (cases e)
  from Cons.prems e obtain bg0 where bg0: "object_at mem p = Some bg0"
    by auto
  then have pl: "p < length mem" by (rule object_at_Some_less)
  from Cons.prems e have d: "distinct (map snd es)" and np: "p \<notin> set (map snd es)"
    by simp_all
  let ?bg = "bg_Update timer bg0"
  have live: "\<forall>q\<in>set (map snd es). object_at (mem[p := v]) q \<noteq> None" for v
    using Cons.prems(2) np by (auto simp: object_at_update)
  show ?case
  proof (cases "ToBeDeleted ?bg")
    case True
    let ?c1 = "if clientIds (m_BracketId ?bg) \<noteq> []
               then clientIds(m_BracketId ?bg :=
                      ids_erase (m_ClientInstanceID ?bg) (clientIds (m_BracketId ?bg)))
               else clientIds"
    have "\<exists>es' clientIds' mem'.
        sweep_instances bg_Update timer es ?c1 (mem[p := None]) = Inr (es', clientIds', mem')
        \<and> (\<forall>p\<in>set (map snd es'). object_at mem' p \<noteq> None)"
      by (rule Cons.IH [OF d live])
    then show ?thesis using e bg0 True by (simp add: Let_def)
  next
    case False
    have "\<exists>es' clientIds' mem'.
        sweep_instances bg_Update timer es clientIds (mem[p := Some ?bg])
          = Inr (es', clientIds', mem')
        \<and> (\<forall>p\<in>set (map snd es'). object_at mem' p \<noteq> None)"
      by (rule Cons.IH [OF d live])
    then obtain rest' clientIds' mem' where
      r: "sweep_instances bg_Update timer es clientIds (mem[p := Some ?bg])
            = Inr (rest', clientIds', mem')"
      and l: "\<forall>q\<in>set (map snd rest'). object_at mem' q \<noteq> None" by blast
    from sweep_instances_frame [OF r] np have "object_at mem' p = object_at (mem[p := Some ?bg]) p"
      by blast
    with pl have "object_at mem' p \<noteq> None" by (simp add: object_at_update)
    with r l show ?thesis using e bg0 False by (simp add: Let_def)
  qed
qed

lemma sweep_data_frame:
  assumes "sweep_data bg_Update timer d mem = Inr (d', mem')"
  shows "\<exists>first rest rest'. m_Battlegrounds d = first # rest \<and> m_Battlegrounds d' = first # rest'"
    and "set (map snd (tl (m_Battlegrounds d'))) \<subseteq> set (map snd (tl (m_Battlegrounds d)))"
    and "distinct (map snd (tl (m_Battlegrounds d))) \<Longrightarrow> distinct (map snd (tl (m_Battlegrounds d')))"
    and "length mem' = length mem"
    and "q \<notin> set (map snd (tl (m_Battlegrounds d))) \<Longrightarrow> object_at mem' q = object_at mem q"
proof -
  from assms obtain first rest rest' clientIds' where
    d: "m_Battlegrounds d = first # rest"
    and r: "sweep_instances bg_Update timer rest (m_ClientBattlegroundIds d) mem
              = Inr (rest', clientIds', mem')"
    and d': "m_Battlegrounds d' = first # rest'"
    by (auto simp: sweep_data_def split: list.splits sum.splits)
  note f = sweep_instances_frame [OF r]
  from d d' show "\<exists>first rest rest'. m_Battlegrounds d = first # rest \<and> m_Battlegrounds d' = first # rest'"
    by blast
  from f d d' show "set (map snd (tl (m_Battlegrounds d'))) \<subseteq> set (map snd (tl (m_Battlegrounds d)))"
    by simp
  from f d d' show "distinct (map snd (tl (m_Battlegrounds d))) \<Longrightarrow> distinct (map snd (tl (m_Battlegrounds d')))"
    by simp
  from f show "length mem' = length mem" by simp
  from f d show "q \<notin> set (map snd (tl (m_Battlegrounds d))) \<Longrightarrow> object_at mem' q = object_at mem q"
    by simp
qed

lemma sweep_data_returns:
  assumes "m_Battlegrounds d \<noteq> []"
    and "distinct (map snd (tl (m_Battlegrounds d)))"
    and "\<forall>p\<in>set (map snd (tl (m_Battlegrounds d))). object_at mem p \<noteq> None"
  shows "\<exists>d' mem'. sweep_data bg_Update timer d mem = Inr (d', mem')
           \<and> (\<forall>p\<in>set (map snd (tl (m_Battlegrounds d'))). object_at mem' p \<noteq> None)"
proof -
  from assms(1) obtain first rest where d: "m_Battlegrounds d = first # rest"
    by (cases "m_Battlegrounds d") auto
  with assms have "distinct (map snd rest)" "\<forall>p\<in>set (map snd rest). object_at mem p \<noteq> None"
    by simp_all
  from sweep_instances_returns [OF this, of bg_Update timer "m_ClientBattlegroundIds d"]
  show ?thesis using d by (auto simp: sweep_data_def)
qed

lemma sweep_store_frame:
  "sweep_store bg_Update timer store mem = Inr (store', mem') \<Longrightarrow>
   set (swept_pointers store') \<subseteq> set (swept_pointers store)
   \<and> (distinct (swept_pointers store) \<longrightarrow> distinct (swept_pointers store'))
   \<and> length mem' = length mem
   \<and> (\<forall>q. q \<notin> set (swept_pointers store) \<longrightarrow> object_at mem' q = object_at mem q)
   \<and> (list_all (\<lambda>e. m_Battlegrounds (snd e) \<noteq> []) store')
   \<and> (\<forall>k. (case store_find k store' of
              None \<Rightarrow> None
            | Some d \<Rightarrow> (case m_Battlegrounds d of [] \<Rightarrow> None | (i, bg) # rest \<Rightarrow> Some bg))
          = (case store_find k store of
              None \<Rightarrow> None
            | Some d \<Rightarrow> (case m_Battlegrounds d of [] \<Rightarrow> None | (i, bg) # rest \<Rightarrow> Some bg)))"
proof (induction store arbitrary: mem store' mem')
  case Nil
  then show ?case by (simp add: swept_pointers_def)
next
  case (Cons e store)
  obtain k d where e: "e = (k, d)" by (cases e)
  from Cons.prems e obtain d' mem1 rest' where
    d': "sweep_data bg_Update timer d mem = Inr (d', mem1)"
    and r: "sweep_store bg_Update timer store mem1 = Inr (rest', mem')"
    and store': "store' = (k, d') # rest'"
    by (auto split: sum.splits)
  note fd = sweep_data_frame [OF d']
  note fr = Cons.IH [OF r]
  have sp: "swept_pointers ((k, x) # st) = map snd (tl (m_Battlegrounds x)) @ swept_pointers st"
    for x st by (simp add: swept_pointers_def)
  have 1: "set (swept_pointers store') \<subseteq> set (swept_pointers (e # store))"
    using fd(2) fr e store' by (auto simp: sp)
  have 2: "distinct (swept_pointers (e # store)) \<longrightarrow> distinct (swept_pointers store')"
  proof
    assume "distinct (swept_pointers (e # store))"
    with e have a: "distinct (map snd (tl (m_Battlegrounds d)))"
      and b: "distinct (swept_pointers store)"
      and c: "set (map snd (tl (m_Battlegrounds d))) \<inter> set (swept_pointers store) = {}"
      by (simp_all add: sp)
    from a have "distinct (map snd (tl (m_Battlegrounds d')))" by (rule fd(3))
    moreover from b fr have "distinct (swept_pointers rest')" by blast
    moreover from c fd(2) fr
    have "set (map snd (tl (m_Battlegrounds d'))) \<inter> set (swept_pointers rest') = {}"
      by blast
    ultimately show "distinct (swept_pointers store')"
      using store' by (simp add: sp)
  qed
  have 3: "length mem' = length mem" using fd(4) fr by simp
  have 4: "\<forall>q. q \<notin> set (swept_pointers (e # store)) \<longrightarrow> object_at mem' q = object_at mem q"
    using fd(5) fr e by (auto simp: sp)
  have 5: "list_all (\<lambda>e. m_Battlegrounds (snd e) \<noteq> []) store'"
    using fd(1) fr store' by auto
  have 6: "(case store_find k' store' of
              None \<Rightarrow> None
            | Some d \<Rightarrow> (case m_Battlegrounds d of [] \<Rightarrow> None | (i, bg) # rest \<Rightarrow> Some bg))
          = (case store_find k' (e # store) of
              None \<Rightarrow> None
            | Some d \<Rightarrow> (case m_Battlegrounds d of [] \<Rightarrow> None | (i, bg) # rest \<Rightarrow> Some bg))" for k'
    using fd(1) fr e store' by (auto split: prod.splits)
  from 1 2 3 4 5 6 show ?case by blast
qed

lemma sweep_store_returns:
  "list_all (\<lambda>e. m_Battlegrounds (snd e) \<noteq> []) store \<Longrightarrow>
   distinct (swept_pointers store) \<Longrightarrow>
   \<forall>p\<in>set (swept_pointers store). object_at mem p \<noteq> None \<Longrightarrow>
   \<exists>store' mem'. sweep_store bg_Update timer store mem = Inr (store', mem')
      \<and> (\<forall>p\<in>set (swept_pointers store'). object_at mem' p \<noteq> None)"
proof (induction store arbitrary: mem)
  case Nil
  then show ?case by (simp add: swept_pointers_def)
next
  case (Cons e store)
  obtain k d where e: "e = (k, d)" by (cases e)
  have sp: "swept_pointers ((k, x) # st) = map snd (tl (m_Battlegrounds x)) @ swept_pointers st"
    for x st by (simp add: swept_pointers_def)
  from Cons.prems e have ne: "m_Battlegrounds d \<noteq> []"
    and dd: "distinct (map snd (tl (m_Battlegrounds d)))"
    and ld: "\<forall>p\<in>set (map snd (tl (m_Battlegrounds d))). object_at mem p \<noteq> None"
    and nes: "list_all (\<lambda>e. m_Battlegrounds (snd e) \<noteq> []) store"
    and ds: "distinct (swept_pointers store)"
    and disj: "set (map snd (tl (m_Battlegrounds d))) \<inter> set (swept_pointers store) = {}"
    and ls: "\<forall>p\<in>set (swept_pointers store). object_at mem p \<noteq> None"
    by (auto simp: sp)
  from sweep_data_returns [OF ne dd ld, of bg_Update timer]
  obtain d' mem1 where d': "sweep_data bg_Update timer d mem = Inr (d', mem1)"
    and l1: "\<forall>p\<in>set (map snd (tl (m_Battlegrounds d'))). object_at mem1 p \<noteq> None" by blast
  note fd = sweep_data_frame [OF d']
  have ls1: "\<forall>p\<in>set (swept_pointers store). object_at mem1 p \<noteq> None"
    using ls disj fd(5) by fastforce
  from Cons.IH [OF nes ds ls1]
  obtain rest' mem' where r: "sweep_store bg_Update timer store mem1 = Inr (rest', mem')"
    and lr: "\<forall>p\<in>set (swept_pointers rest'). object_at mem' p \<noteq> None" by blast
  note fr = sweep_store_frame [OF r]
  have "\<forall>p\<in>set (map snd (tl (m_Battlegrounds d'))). object_at mem' p \<noteq> None"
  proof
    fix p assume p: "p \<in> set (map snd (tl (m_Battlegrounds d')))"
    with fd(2) have "p \<in> set (map snd (tl (m_Battlegrounds d)))" by blast
    with disj have "p \<notin> set (swept_pointers store)" by blast
    with fr have "object_at mem' p = object_at mem1 p" by blast
    moreover from l1 p have "object_at mem1 p \<noteq> None" by blast
    ultimately show "object_at mem' p \<noteq> None" by simp
  qed
  with lr have "\<forall>p\<in>set (swept_pointers ((k, d') # rest')). object_at mem' p \<noteq> None"
    by (auto simp: sp)
  with d' r e show ?case by simp
qed

lemma update_instances_frame:
  assumes "update_instances h bg_Update diff s = Inr s1"
  shows "m_QueueUpdateScheduler s1 = m_QueueUpdateScheduler s"
    and "m_NextRatedArenaUpdate s1 = m_NextRatedArenaUpdate s"
    and "GetBattlegroundTemplate s1 k = GetBattlegroundTemplate s k"
    and "set (swept_pointers (bgDataStore s1)) \<subseteq> set (swept_pointers (bgDataStore s))"
    and "q \<notin> set (swept_pointers (bgDataStore s)) \<Longrightarrow>
         object_at (objects s1) q = object_at (objects s) q"
proof -
  have "m_QueueUpdateScheduler s1 = m_QueueUpdateScheduler s
      \<and> m_NextRatedArenaUpdate s1 = m_NextRatedArenaUpdate s
      \<and> GetBattlegroundTemplate s1 k = GetBattlegroundTemplate s k
      \<and> set (swept_pointers (bgDataStore s1)) \<subseteq> set (swept_pointers (bgDataStore s))
      \<and> (q \<notin> set (swept_pointers (bgDataStore s)) \<longrightarrow>
           object_at (objects s1) q = object_at (objects s) q)"
  proof (cases "m_UpdateTimer s + diff > BATTLEGROUND_OBJECTIVE_UPDATE_INTERVAL h")
    case True
    with assms obtain store' mem' where
      sw: "sweep_store bg_Update (m_UpdateTimer s + diff) (bgDataStore s) (objects s)
             = Inr (store', mem')"
      and s1: "s1 = s\<lparr>bgDataStore := store', objects := mem', m_UpdateTimer := 0\<rparr>"
      by (auto simp: update_instances_def Let_def split: sum.splits)
    note f = sweep_store_frame [OF sw]
    from f have "GetBattlegroundTemplate s1 k = GetBattlegroundTemplate s k"
      unfolding GetBattlegroundTemplate_def s1 by simp
    with f s1 show ?thesis by simp
  next
    case False
    with assms have "s1 = s\<lparr>m_UpdateTimer := m_UpdateTimer s + diff\<rparr>"
      by (auto simp: update_instances_def Let_def)
    then show ?thesis by (simp add: GetBattlegroundTemplate_def)
  qed
  then show "m_QueueUpdateScheduler s1 = m_QueueUpdateScheduler s"
    and "m_NextRatedArenaUpdate s1 = m_NextRatedArenaUpdate s"
    and "GetBattlegroundTemplate s1 k = GetBattlegroundTemplate s k"
    and "set (swept_pointers (bgDataStore s1)) \<subseteq> set (swept_pointers (bgDataStore s))"
    and "q \<notin> set (swept_pointers (bgDataStore s)) \<Longrightarrow>
         object_at (objects s1) q = object_at (objects s) q"
    by simp_all
qed

lemma update_instances_returns:
  assumes "\<not> BATTLEGROUND_OBJECTIVE_UPDATE_INTERVAL h < m_UpdateTimer s + diff \<or> sweep_ready s"
  shows "\<exists>s1. update_instances h bg_Update diff s = Inr s1
            \<and> (sweep_ready s \<longrightarrow> sweep_ready s1)"
proof (cases "m_UpdateTimer s + diff > BATTLEGROUND_OBJECTIVE_UPDATE_INTERVAL h")
  case True
  with assms have r: "sweep_ready s" by simp
  then have a: "list_all (\<lambda>e. m_Battlegrounds (snd e) \<noteq> []) (bgDataStore s)"
    and b: "distinct (swept_pointers (bgDataStore s))"
    and c: "\<forall>p\<in>set (swept_pointers (bgDataStore s)). object_at (objects s) p \<noteq> None"
    by (simp_all add: sweep_ready_def list_all_iff)
  from sweep_store_returns [OF a b c, of bg_Update "m_UpdateTimer s + diff"]
  obtain store' mem' where
    sw: "sweep_store bg_Update (m_UpdateTimer s + diff) (bgDataStore s) (objects s)
           = Inr (store', mem')"
    and l: "\<forall>p\<in>set (swept_pointers store'). object_at mem' p \<noteq> None" by blast
  note f = sweep_store_frame [OF sw]
  let ?s1 = "s\<lparr>bgDataStore := store', objects := mem', m_UpdateTimer := 0\<rparr>"
  from f b l have "sweep_ready ?s1"
    by (simp add: sweep_ready_def list_all_iff)
  moreover from True sw have "update_instances h bg_Update diff s = Inr ?s1"
    by (simp add: update_instances_def Let_def)
  ultimately show ?thesis by simp
next
  case False
  then have "update_instances h bg_Update diff s = Inr (s\<lparr>m_UpdateTimer := m_UpdateTimer s + diff\<rparr>)"
    by (simp add: update_instances_def Let_def)
  then show ?thesis by (simp add: sweep_ready_def)
qed

lemma Update_Inr_cases:
  assumes "Update h cfg bg_Update diff s = Some (Inr (s', calls))"
  obtains s1 where "update_instances h bg_Update diff s = Inr s1"
    and "length (m_QueueUpdateScheduler s1) < 256"
    and "s' = s1\<lparr>m_QueueUpdateScheduler := [],
                 m_NextRatedArenaUpdate :=
                   snd (rated_arena_update h cfg diff (m_NextRatedArenaUpdate s1))\<rparr>"
    and "calls = map (\<lambda>qtype. UpdateEvents qtype diff)
                   [QueueTypeId_value h BATTLEGROUND_QUEUE_NONE ..< MAX_BATTLEGROUND_QUEUE_TYPES h]
                 @ map (scheduled_call h diff) (m_QueueUpdateScheduler s1)
                 @ fst (rated_arena_update h cfg diff (m_NextRatedArenaUpdate s1))"
proof -
  from assms obtain s1 where u: "update_instances h bg_Update diff s = Inr s1"
    by (auto simp: Update_def split: sum.splits)
  show thesis
  proof (cases "m_QueueUpdateScheduler s1 = []")
    case True
    with assms u show ?thesis
      by (intro that [of s1]) (auto simp: Update_def Let_def split: prod.splits)
  next
    case False
    with assms u obtain dispatched where
      d: "dispatch_scheduled h diff (m_QueueUpdateScheduler s1) 0 [] = Some dispatched"
      by (auto simp: Update_def Let_def split: option.splits)
    then have l: "length (m_QueueUpdateScheduler s1) < 256"
      by (rule dispatch_scheduled_Some_length)
    with d have "dispatched = map (scheduled_call h diff) (m_QueueUpdateScheduler s1)"
      by (simp add: dispatch_scheduled_all)
    with assms u False d l show ?thesis
      by (intro that [of s1]) (auto simp: Update_def Let_def split: prod.splits)
  qed
qed

lemma Update_of_update_instances:
  assumes "update_instances h bg_Update diff s = Inr s1"
    and "length (m_QueueUpdateScheduler s) < 256"
  shows "Update h cfg bg_Update diff s =
     Some (Inr (s1\<lparr>m_QueueUpdateScheduler := [],
                    m_NextRatedArenaUpdate :=
                      snd (rated_arena_update h cfg diff (m_NextRatedArenaUpdate s))\<rparr>,
                map (\<lambda>qtype. UpdateEvents qtype diff)
                  [QueueTypeId_value h BATTLEGROUND_QUEUE_NONE ..< MAX_BATTLEGROUND_QUEUE_TYPES h]
                @ map (scheduled_call h diff) (m_QueueUpdateScheduler s)
                @ fst (rated_arena_update h cfg diff (m_NextRatedArenaUpdate s))))"
proof -
  note f = update_instances_frame(1,2) [OF assms(1)]
  from assms(2) f have "dispatch_scheduled h diff (m_QueueUpdateScheduler s1) 0 []
      = Some (map (scheduled_call h diff) (m_QueueUpdateScheduler s1))"
    by (simp add: dispatch_scheduled_all)
  with assms(1) f show ?thesis
    by (simp add: Update_def Let_def split: prod.splits)
qed



lemma Update_returns:
  assumes "\<not> BATTLEGROUND_OBJECTIVE_UPDATE_INTERVAL h < m_UpdateTimer s + diff \<or> sweep_ready s"
    and "length (m_QueueUpdateScheduler s) < 256"
  shows "\<exists>s' calls. Update h cfg bg_Update diff s = Some (Inr (s', calls))
          \<and> (sweep_ready s \<longrightarrow> sweep_ready s')
          \<and> m_QueueUpdateScheduler s' = []"
proof -
  from update_instances_returns [OF assms(1), of bg_Update]
  obtain s1 where u: "update_instances h bg_Update diff s = Inr s1"
    and ok: "sweep_ready s \<longrightarrow> sweep_ready s1" by blast
  from ok have "sweep_ready s \<longrightarrow> sweep_ready (s1\<lparr>m_QueueUpdateScheduler := [],
                    m_NextRatedArenaUpdate :=
                      snd (rated_arena_update h cfg diff (m_NextRatedArenaUpdate s))\<rparr>)"
    by (simp add: sweep_ready_def)
  with Update_of_update_instances [OF u assms(2), of cfg] show ?thesis by simp
qed


lemma Update_below_interval:
  assumes "\<not> BATTLEGROUND_OBJECTIVE_UPDATE_INTERVAL h < m_UpdateTimer s + diff"
    and "length (m_QueueUpdateScheduler s) < 256"
  shows "Update h cfg bg_Update diff s =
     Some (Inr (s\<lparr>m_UpdateTimer := m_UpdateTimer s + diff,
                   m_QueueUpdateScheduler := [],
                   m_NextRatedArenaUpdate :=
                     snd (rated_arena_update h cfg diff (m_NextRatedArenaUpdate s))\<rparr>,
                map (\<lambda>qtype. UpdateEvents qtype diff)
                  [QueueTypeId_value h BATTLEGROUND_QUEUE_NONE ..< MAX_BATTLEGROUND_QUEUE_TYPES h]
                @ map (scheduled_call h diff) (m_QueueUpdateScheduler s)
                @ fst (rated_arena_update h cfg diff (m_NextRatedArenaUpdate s))))"
proof -
  from assms(1) have u: "update_instances h bg_Update diff s
      = Inr (s\<lparr>m_UpdateTimer := m_UpdateTimer s + diff\<rparr>)"
    by (simp add: update_instances_def Let_def)
  from Update_of_update_instances [OF u assms(2)] show ?thesis by simp
qed

lemma in_set_forced_calls:
  "c \<in> set (forced_calls h diff) \<longleftrightarrow>
     (\<exists>qtype bracket.
        QueueTypeId_value h BATTLEGROUND_QUEUE_2v2 \<le> qtype
        \<and> qtype \<le> QueueTypeId_value h BATTLEGROUND_QUEUE_5v5
        \<and> BG_BRACKET_ID_FIRST h \<le> bracket \<and> bracket < MAX_BATTLEGROUND_BRACKETS h
        \<and> c = BattlegroundQueueUpdate qtype diff BATTLEGROUND_AA bracket
                 (BGArenaType (QueueTypeId_cast h qtype)) True 0)"
  by (auto simp: forced_calls_def less_Suc_eq_le)

lemma forced_calls_member:
  assumes "QueueTypeId_value h BATTLEGROUND_QUEUE_2v2 \<le> QueueTypeId_value h q"
    and "QueueTypeId_value h q \<le> QueueTypeId_value h BATTLEGROUND_QUEUE_5v5"
    and "QueueTypeId_cast h (QueueTypeId_value h q) = q"
    and "BG_BRACKET_ID_FIRST h \<le> bracket" and "bracket < MAX_BATTLEGROUND_BRACKETS h"
  shows "BattlegroundQueueUpdate (QueueTypeId_value h q) diff BATTLEGROUND_AA bracket
           (BGArenaType q) True 0 \<in> set (forced_calls h diff)"
  unfolding in_set_forced_calls
  using assms by (intro exI [of _ "QueueTypeId_value h q"] exI [of _ bracket]) simp

section \<open>Auxiliary facts about the template instance\<close>







text \<open>What a returning call of \<^verbatim>\<open>Update\<close> has done with the countdown.\<close>

lemma Update_rated_arena_update:
  assumes "CONFIG_ARENA_MAX_RATING_DIFFERENCE cfg \<noteq> 0"
    and "CONFIG_ARENA_RATED_UPDATE_TIMER cfg \<noteq> 0"
    and "Update h cfg bg_Update diff s = Some (Inr (s', calls))"
  shows "(m_NextRatedArenaUpdate s < diff \<longrightarrow>
            m_NextRatedArenaUpdate s' = CONFIG_ARENA_RATED_UPDATE_TIMER cfg
            \<and> calls = map (\<lambda>qtype. UpdateEvents qtype diff)
                        [QueueTypeId_value h BATTLEGROUND_QUEUE_NONE ..< MAX_BATTLEGROUND_QUEUE_TYPES h]
                      @ map (scheduled_call h diff) (m_QueueUpdateScheduler s)
                      @ forced_calls h diff)
         \<and> (\<not> m_NextRatedArenaUpdate s < diff \<longrightarrow>
            m_NextRatedArenaUpdate s' = m_NextRatedArenaUpdate s - diff
            \<and> calls = map (\<lambda>qtype. UpdateEvents qtype diff)
                        [QueueTypeId_value h BATTLEGROUND_QUEUE_NONE ..< MAX_BATTLEGROUND_QUEUE_TYPES h]
                      @ map (scheduled_call h diff) (m_QueueUpdateScheduler s))"
proof -
  from assms(3) obtain s1 where u: "update_instances h bg_Update diff s = Inr s1"
    and s': "s' = s1\<lparr>m_QueueUpdateScheduler := [],
                 m_NextRatedArenaUpdate :=
                   snd (rated_arena_update h cfg diff (m_NextRatedArenaUpdate s1))\<rparr>"
    and calls: "calls = map (\<lambda>qtype. UpdateEvents qtype diff)
                   [QueueTypeId_value h BATTLEGROUND_QUEUE_NONE ..< MAX_BATTLEGROUND_QUEUE_TYPES h]
                 @ map (scheduled_call h diff) (m_QueueUpdateScheduler s1)
                 @ fst (rated_arena_update h cfg diff (m_NextRatedArenaUpdate s1))"
    by (rule Update_Inr_cases)
  note same = update_instances_frame(1,2) [OF u]
  show ?thesis
  proof (cases "m_NextRatedArenaUpdate s < diff")
    case True
    with assms(1,2) same have r: "rated_arena_update h cfg diff (m_NextRatedArenaUpdate s1)
        = (forced_calls h diff, CONFIG_ARENA_RATED_UPDATE_TIMER cfg)"
      by (simp add: rated_arena_update_def)
    with True s' calls same show ?thesis by simp
  next
    case False
    with assms(1,2) same have "rated_arena_update h cfg diff (m_NextRatedArenaUpdate s1)
        = ([], m_NextRatedArenaUpdate s - diff)"
      by (simp add: rated_arena_update_def)
    with False s' calls same show ?thesis by simp
  qed
qed

section \<open>Properties of the queue classification and of the holiday mapping\<close>

text \<open>
  Claim C8. For every arena kind and every arena team size among 2, 3 and 5, the queue type
  of the pair maps back to the arena aggregate kind \<^verbatim>\<open>BATTLEGROUND_AA\<close>. \<^verbatim>\<open>BGQueueTypeId\<close> is
  total, and it returns the none sentinel exactly for the pairs it does not recognise: a kind
  that is neither one of the nine queued battleground kinds nor an arena kind, or an arena
  kind with a team size other than 2, 3 and 5.
\<close>

theorem BGQueueTypeId_arena_round_trip:
  "(IsArenaType bgTypeId \<and> arenaType \<in> {ARENA_TYPE_2v2, ARENA_TYPE_3v3, ARENA_TYPE_5v5}
      \<longrightarrow> BGTemplateId (BGQueueTypeId bgTypeId arenaType) = BATTLEGROUND_AA)
   \<and> (BGQueueTypeId bgTypeId arenaType = BATTLEGROUND_QUEUE_NONE \<longleftrightarrow>
        \<not> (bgTypeId \<in> {BATTLEGROUND_AB, BATTLEGROUND_AV, BATTLEGROUND_EY, BATTLEGROUND_IC,
                        BATTLEGROUND_TP, BATTLEGROUND_BFG, BATTLEGROUND_RB, BATTLEGROUND_SA,
                        BATTLEGROUND_WS}
            \<or> (IsArenaType bgTypeId
                \<and> arenaType \<in> {ARENA_TYPE_2v2, ARENA_TYPE_3v3, ARENA_TYPE_5v5})))"
  by (cases bgTypeId)
     (auto simp: IsArenaType_def arena_queue_def ARENA_TYPE_2v2_def ARENA_TYPE_3v3_def
                 ARENA_TYPE_5v5_def)

theorem BGQueueTypeId_arena_round_trip_witness:
  "IsArenaType BATTLEGROUND_NA \<and> ARENA_TYPE_3v3 \<in> {ARENA_TYPE_2v2, ARENA_TYPE_3v3, ARENA_TYPE_5v5}
   \<and> BGTemplateId (BGQueueTypeId BATTLEGROUND_NA ARENA_TYPE_3v3) = BATTLEGROUND_AA
   \<and> BGQueueTypeId BATTLEGROUND_NA 4 = BATTLEGROUND_QUEUE_NONE
   \<and> BGQueueTypeId (BATTLEGROUND_TYPE_OTHER 100) ARENA_TYPE_2v2 = BATTLEGROUND_QUEUE_NONE
   \<and> BGQueueTypeId BATTLEGROUND_WS 0 \<noteq> BATTLEGROUND_QUEUE_NONE"
  using BGQueueTypeId_arena_round_trip [of BATTLEGROUND_NA ARENA_TYPE_3v3]
        BGQueueTypeId_arena_round_trip [of BATTLEGROUND_NA 4]
        BGQueueTypeId_arena_round_trip [of "BATTLEGROUND_TYPE_OTHER 100" ARENA_TYPE_2v2]
        BGQueueTypeId_arena_round_trip [of BATTLEGROUND_WS 0]
  by (simp add: IsArenaType_def ARENA_TYPE_2v2_def ARENA_TYPE_3v3_def ARENA_TYPE_5v5_def)

text \<open>
  Claim C9. The holiday mapping is a round trip in both directions on the eight kinds with a
  linked call-to-arms event and on the eight events, none of which maps to a sentinel; every
  other kind maps to \<^verbatim>\<open>HOLIDAY_NONE\<close> and every other holiday to \<^verbatim>\<open>BATTLEGROUND_TYPE_NONE\<close>.
\<close>

theorem holiday_round_trip:
  "(bgTypeId \<in> {BATTLEGROUND_AV, BATTLEGROUND_EY, BATTLEGROUND_WS, BATTLEGROUND_SA,
                 BATTLEGROUND_AB, BATTLEGROUND_IC, BATTLEGROUND_TP, BATTLEGROUND_BFG}
      \<longrightarrow> BGTypeToWeekendHolidayId bgTypeId \<noteq> HOLIDAY_NONE
          \<and> WeekendHolidayIdToBGType (BGTypeToWeekendHolidayId bgTypeId) = bgTypeId)
   \<and> (holiday \<in> {HOLIDAY_CALL_TO_ARMS_AV, HOLIDAY_CALL_TO_ARMS_EY, HOLIDAY_CALL_TO_ARMS_WS,
                  HOLIDAY_CALL_TO_ARMS_SA, HOLIDAY_CALL_TO_ARMS_AB, HOLIDAY_CALL_TO_ARMS_IC,
                  HOLIDAY_CALL_TO_ARMS_TP, HOLIDAY_CALL_TO_ARMS_BFG}
      \<longrightarrow> WeekendHolidayIdToBGType holiday \<noteq> BATTLEGROUND_TYPE_NONE
          \<and> BGTypeToWeekendHolidayId (WeekendHolidayIdToBGType holiday) = holiday)
   \<and> (bgTypeId \<notin> {BATTLEGROUND_AV, BATTLEGROUND_EY, BATTLEGROUND_WS, BATTLEGROUND_SA,
                 BATTLEGROUND_AB, BATTLEGROUND_IC, BATTLEGROUND_TP, BATTLEGROUND_BFG}
      \<longrightarrow> BGTypeToWeekendHolidayId bgTypeId = HOLIDAY_NONE)
   \<and> (holiday \<notin> {HOLIDAY_CALL_TO_ARMS_AV, HOLIDAY_CALL_TO_ARMS_EY, HOLIDAY_CALL_TO_ARMS_WS,
                  HOLIDAY_CALL_TO_ARMS_SA, HOLIDAY_CALL_TO_ARMS_AB, HOLIDAY_CALL_TO_ARMS_IC,
                  HOLIDAY_CALL_TO_ARMS_TP, HOLIDAY_CALL_TO_ARMS_BFG}
      \<longrightarrow> WeekendHolidayIdToBGType holiday = BATTLEGROUND_TYPE_NONE)"
  by (cases bgTypeId; cases holiday; simp)

theorem holiday_round_trip_witness:
  "WeekendHolidayIdToBGType (BGTypeToWeekendHolidayId BATTLEGROUND_TP) = BATTLEGROUND_TP
   \<and> BGTypeToWeekendHolidayId (WeekendHolidayIdToBGType HOLIDAY_CALL_TO_ARMS_SA)
       = HOLIDAY_CALL_TO_ARMS_SA
   \<and> BGTypeToWeekendHolidayId BATTLEGROUND_RB = HOLIDAY_NONE
   \<and> WeekendHolidayIdToBGType (HOLIDAY_OTHER 181) = BATTLEGROUND_TYPE_NONE"
  using holiday_round_trip [of BATTLEGROUND_TP HOLIDAY_CALL_TO_ARMS_SA]
        holiday_round_trip [of BATTLEGROUND_RB "HOLIDAY_OTHER 181"]
  by simp

section \<open>Properties of the instance pool\<close>

text \<open>
  Claim C1 says that the next client id is always the smallest positive integer that the
  set of the pair does not hold: 2 for the set {1}, and 1 once 1 is released from {1, 3}.
  \<^verbatim>\<open>CreateClientVisibleInstanceId\<close> does not compute that (lemma
  \<open>CreateClientVisibleInstanceId_value\<close> gives what it returns). For a battleground kind of
  the example manager the first allocation returns 1; the second, from the set {1}, returns
  3 and not 2; the third, from {1, 3}, returns 3 again, an id that is in use. In the run of
  three instances the ids are 1, 3 and, after the first instance is retired and the set is
  {3}, 2 and not 1.
\<close>

theorem CreateClientVisibleInstanceId_skips_two:
  "fst (CreateClientVisibleInstanceId example_header BATTLEGROUND_WS 0 example_mgr) = 1
   \<and> fst (CreateClientVisibleInstanceId example_header BATTLEGROUND_WS 0
            (snd (CreateClientVisibleInstanceId example_header BATTLEGROUND_WS 0 example_mgr))) = 3
   \<and> fst (CreateClientVisibleInstanceId example_header BATTLEGROUND_WS 0
            (snd (CreateClientVisibleInstanceId example_header BATTLEGROUND_WS 0
               (snd (CreateClientVisibleInstanceId example_header BATTLEGROUND_WS 0
                  example_mgr))))) = 3
   \<and> example_three_instances = Some (1, 3, 2, True)"
proof -
  have "fst (CreateClientVisibleInstanceId example_header BATTLEGROUND_WS 0 example_mgr) = 1"
    by code_simp
  moreover have "fst (CreateClientVisibleInstanceId example_header BATTLEGROUND_WS 0
            (snd (CreateClientVisibleInstanceId example_header BATTLEGROUND_WS 0 example_mgr))) = 3"
    by code_simp
  moreover have "fst (CreateClientVisibleInstanceId example_header BATTLEGROUND_WS 0
            (snd (CreateClientVisibleInstanceId example_header BATTLEGROUND_WS 0
               (snd (CreateClientVisibleInstanceId example_header BATTLEGROUND_WS 0
                  example_mgr))))) = 3"
    by code_simp
  moreover have "example_three_instances = Some (1, 3, 2, True)"
    by code_simp
  ultimately show ?thesis by simp
qed

text \<open>
  Claim C7. For an arena kind \<^verbatim>\<open>CreateClientVisibleInstanceId\<close> returns 0 and leaves the
  manager as it is, whatever the bracket and whatever was created before; an instance that
  \<^verbatim>\<open>CreateNewBattleground\<close> creates on a request for an arena kind has client-visible id 0,
  and the new object is all that the call adds to the manager.
\<close>

theorem arena_client_instance_id_zero:
  "IsArenaType bgTypeId \<Longrightarrow>
   CreateClientVisibleInstanceId h bgTypeId bracket_id s = (0, s)
   \<and> (\<forall>bg s'. CreateNewBattleground h select newInstanceId bgTypeId bracket_id arenaType isRated s
                 = Inr (Some bg, s')
         \<longrightarrow> (\<exists>b. object_at (objects s') bg = Some b \<and> m_ClientInstanceID b = 0
                  \<and> s' = s\<lparr>objects := objects s @ [Some b]\<rparr>))"
  by (auto simp: CreateClientVisibleInstanceId_def CreateNewBattleground_def Reset_def
                 new_object_def object_at_append_new
           split: sum.splits option.splits if_splits)

theorem arena_client_instance_id_zero_witness:
  "IsArenaType BATTLEGROUND_NA
   \<and> CreateClientVisibleInstanceId example_header BATTLEGROUND_NA 1 example_mgr = (0, example_mgr)
   \<and> (\<exists>bg b. CreateNewBattleground example_header (\<lambda>ids weights. 0) 7 BATTLEGROUND_NA 1
                 ARENA_TYPE_2v2 True example_mgr
              = Inr (Some bg, example_mgr\<lparr>objects := objects example_mgr @ [Some b]\<rparr>)
            \<and> m_ClientInstanceID b = 0)"
proof -
  have a: "IsArenaType BATTLEGROUND_NA" by (simp add: IsArenaType_def)
  have "case CreateNewBattleground example_header (\<lambda>ids weights. 0) 7 BATTLEGROUND_NA 1
               ARENA_TYPE_2v2 True example_mgr of
          Inr (Some bg, s') \<Rightarrow> True
        | _ \<Rightarrow> False"
    by code_simp
  then have "\<exists>bg s'. CreateNewBattleground example_header (\<lambda>ids weights. 0) 7 BATTLEGROUND_NA 1
               ARENA_TYPE_2v2 True example_mgr = Inr (Some bg, s')"
    by (auto split: sum.splits option.splits prod.splits)
  then show ?thesis
    using a arena_client_instance_id_zero [OF a, where bracket_id = 1 and s = example_mgr
              and h = example_header and select = "\<lambda>ids weights. 0" and newInstanceId = 7
              and arenaType = ARENA_TYPE_2v2 and isRated = True]
    by blast
qed



section \<open>Properties of the weighted random selection\<close>

text \<open>
  Claim C2 says that instance creation returns the absence value, and never faults, when the
  draw of \<^verbatim>\<open>GetRandomBG\<close> finds no candidate kind. The code does not check for that: with no
  candidate the vector \<^verbatim>\<open>ids\<close> is empty, and \<^verbatim>\<open>GetRandomBG\<close> dereferences the iterator into
  it whatever \<^verbatim>\<open>SelectRandomWeightedContainerElement\<close> returns. For the manager whose catalog
  holds the random aggregate alone, a request for the aggregate ends in that invalid
  dereference.
\<close>

theorem CreateNewBattleground_no_candidate_faults:
  "CreateNewBattleground h select newInstanceId BATTLEGROUND_RB bracket_id arenaType isRated
     example_mgr_only_RB = Inl InvalidIteratorDereference"
proof -
  have t: "GetBattlegroundTemplateByTypeId example_mgr_only_RB BATTLEGROUND_RB
             = Some example_template_RB"
    by (simp add: GetBattlegroundTemplateByTypeId_def example_mgr_only_RB_def)
  have "battlegroundMapTemplates example_mgr_only_RB = Map.empty"
    by (simp add: example_mgr_only_RB_def BattlegroundMgr_ctor_def)
  then have c: "GetRandomBG_candidates example_mgr_only_RB (MapID example_template_RB) = []"
    by (rule GetRandomBG_candidates_no_map_template)
  have "GetRandomBG select example_mgr_only_RB BATTLEGROUND_RB = Inl InvalidIteratorDereference"
    using t c by (rule GetRandomBG_no_candidate)
  then show ?thesis
    by (simp add: CreateNewBattleground_def)
qed

section \<open>Properties of the deferred scheduler\<close>

text \<open>
  Claim C6. After any sequence of calls of \<^verbatim>\<open>ScheduleQueueUpdate\<close> on the manager as
  constructed the pending list holds no packed key twice, and a pending list without two
  equal keys (such as the empty list a drain leaves) has none after any sequence of calls;
  scheduling a key that is pending leaves the manager unchanged, so scheduling the same key
  twice is the same as scheduling it once.
\<close>

theorem ScheduleQueueUpdate_idempotent:
  "distinct (m_QueueUpdateScheduler (ScheduleQueueUpdates h calls (BattlegroundMgr_ctor cfg)))
   \<and> (distinct (m_QueueUpdateScheduler s) \<longrightarrow>
      distinct (m_QueueUpdateScheduler (ScheduleQueueUpdates h calls s)))
   \<and> (scheduleId h rating arenaType bgQueueTypeId bgTypeId bracket_id \<in> set (m_QueueUpdateScheduler s)
        \<longrightarrow> ScheduleQueueUpdate h rating arenaType bgQueueTypeId bgTypeId bracket_id s = s)
   \<and> ScheduleQueueUpdate h rating arenaType bgQueueTypeId bgTypeId bracket_id
        (ScheduleQueueUpdate h rating arenaType bgQueueTypeId bgTypeId bracket_id s)
      = ScheduleQueueUpdate h rating arenaType bgQueueTypeId bgTypeId bracket_id s"
proof (intro conjI impI)
  show "distinct (m_QueueUpdateScheduler (ScheduleQueueUpdates h calls (BattlegroundMgr_ctor cfg)))"
    by (rule ScheduleQueueUpdates_distinct) (simp add: BattlegroundMgr_ctor_def)
next
  assume "distinct (m_QueueUpdateScheduler s)"
  then show "distinct (m_QueueUpdateScheduler (ScheduleQueueUpdates h calls s))"
    by (rule ScheduleQueueUpdates_distinct)
next
  assume "scheduleId h rating arenaType bgQueueTypeId bgTypeId bracket_id
            \<in> set (m_QueueUpdateScheduler s)"
  then show "ScheduleQueueUpdate h rating arenaType bgQueueTypeId bgTypeId bracket_id s = s"
    by (simp add: ScheduleQueueUpdate_def)
next
  show "ScheduleQueueUpdate h rating arenaType bgQueueTypeId bgTypeId bracket_id
          (ScheduleQueueUpdate h rating arenaType bgQueueTypeId bgTypeId bracket_id s)
        = ScheduleQueueUpdate h rating arenaType bgQueueTypeId bgTypeId bracket_id s"
    by (simp add: ScheduleQueueUpdate_def Let_def)
qed

theorem ScheduleQueueUpdate_idempotent_witness:
  "distinct (m_QueueUpdateScheduler (BattlegroundMgr_ctor example_config))
   \<and> distinct (m_QueueUpdateScheduler
        (ScheduleQueueUpdates example_header
           [(1500, ARENA_TYPE_2v2, BATTLEGROUND_QUEUE_2v2, BATTLEGROUND_AA, 3),
            (0, 0, BATTLEGROUND_QUEUE_WS, BATTLEGROUND_WS, 1),
            (1500, ARENA_TYPE_2v2, BATTLEGROUND_QUEUE_2v2, BATTLEGROUND_AA, 3)]
           (BattlegroundMgr_ctor example_config)))
   \<and> scheduleId example_header 0 0 BATTLEGROUND_QUEUE_WS BATTLEGROUND_WS 1
        \<in> set (m_QueueUpdateScheduler
              (ScheduleQueueUpdate example_header 0 0 BATTLEGROUND_QUEUE_WS BATTLEGROUND_WS 1
                 (BattlegroundMgr_ctor example_config)))
   \<and> ScheduleQueueUpdate example_header 0 0 BATTLEGROUND_QUEUE_WS BATTLEGROUND_WS 1
        (ScheduleQueueUpdate example_header 0 0 BATTLEGROUND_QUEUE_WS BATTLEGROUND_WS 1
           (BattlegroundMgr_ctor example_config))
      = ScheduleQueueUpdate example_header 0 0 BATTLEGROUND_QUEUE_WS BATTLEGROUND_WS 1
          (BattlegroundMgr_ctor example_config)"
proof -
  have a: "distinct (m_QueueUpdateScheduler (BattlegroundMgr_ctor example_config))"
    by (simp add: BattlegroundMgr_ctor_def)
  have b: "scheduleId example_header 0 0 BATTLEGROUND_QUEUE_WS BATTLEGROUND_WS 1
        \<in> set (m_QueueUpdateScheduler
              (ScheduleQueueUpdate example_header 0 0 BATTLEGROUND_QUEUE_WS BATTLEGROUND_WS 1
                 (BattlegroundMgr_ctor example_config)))"
    by (simp add: ScheduleQueueUpdate_def Let_def)
  show ?thesis
    using a b
      ScheduleQueueUpdate_idempotent [where s = "BattlegroundMgr_ctor example_config"
        and h = example_header
        and calls = "[(1500, ARENA_TYPE_2v2, BATTLEGROUND_QUEUE_2v2, BATTLEGROUND_AA, 3),
            (0, 0, BATTLEGROUND_QUEUE_WS, BATTLEGROUND_WS, 1),
            (1500, ARENA_TYPE_2v2, BATTLEGROUND_QUEUE_2v2, BATTLEGROUND_AA, 3)]"]
      ScheduleQueueUpdate_idempotent [where
        s = "ScheduleQueueUpdate example_header 0 0 BATTLEGROUND_QUEUE_WS BATTLEGROUND_WS 1
                 (BattlegroundMgr_ctor example_config)"
        and h = example_header and calls = "[]" and rating = 0 and arenaType = 0
        and bgQueueTypeId = BATTLEGROUND_QUEUE_WS and bgTypeId = BATTLEGROUND_WS
        and bracket_id = 1]
    by simp
qed

section \<open>Properties of the tick\<close>

text \<open>
  Claim C3 says that the forced update of the arena queues runs when the countdown reaches
  or passes zero. The code tests \<^verbatim>\<open>m_NextRatedArenaUpdate < diff\<close>: with both configuration
  values non-zero and the countdown equal to the elapsed time, the countdown reaches zero,
  no queue update is forced and the countdown is left at 0 instead of the configured
  interval.
\<close>

theorem Update_countdown_reaches_zero_counterexample:
  "CONFIG_ARENA_MAX_RATING_DIFFERENCE example_config \<noteq> 0
   \<and> CONFIG_ARENA_RATED_UPDATE_TIMER example_config = 5000
   \<and> m_NextRatedArenaUpdate (example_mgr\<lparr>m_NextRatedArenaUpdate := 5\<rparr>) - 5 = 0
   \<and> Update example_header example_config example_bg_Update 5
        (example_mgr\<lparr>m_NextRatedArenaUpdate := 5\<rparr>)
      = Some (Inr (example_mgr\<lparr>m_UpdateTimer := 5, m_QueueUpdateScheduler := [],
                               m_NextRatedArenaUpdate := 0\<rparr>,
                   [UpdateEvents 0 5, UpdateEvents 1 5, UpdateEvents 2 5, UpdateEvents 3 5,
                    UpdateEvents 4 5, UpdateEvents 5 5, UpdateEvents 6 5, UpdateEvents 7 5,
                    UpdateEvents 8 5, UpdateEvents 9 5, UpdateEvents 10 5, UpdateEvents 11 5,
                    UpdateEvents 12 5]))"
proof -
  have "Update example_header example_config example_bg_Update 5
          (example_mgr\<lparr>m_NextRatedArenaUpdate := 5\<rparr>)
        = Some (Inr (example_mgr\<lparr>m_UpdateTimer := 5, m_QueueUpdateScheduler := [],
                               m_NextRatedArenaUpdate := 0\<rparr>,
                   map (\<lambda>qtype. UpdateEvents qtype 5) [0..<13]))"
    by (subst Update_below_interval)
       (simp_all add: example_header_def example_config_def rated_arena_update_def)
  moreover have "[0..<13] = [0, 1, 2, 3, 4, 5, 6, 7, 8, 9, 10, 11, 12 :: nat]"
    by (simp add: upt_conv_Cons)
  ultimately show ?thesis
    by (simp add: example_config_def)
qed

text \<open>
  Claim C3, amended. Take a call of \<^verbatim>\<open>Update\<close> with both configuration values non-zero and
  fewer than 256 scheduled entries pending (claim C4 has the case of 256), in which the
  accumulated timer stays within the objective-update interval or, when it does not and the
  instances are swept, the pool is ready for the sweep: every type of the store has an
  entry, and the entries after the first of each type point to objects, no two of them to
  the same one. The call returns. If the countdown is less than the elapsed time, the
  countdown is reset to the configured interval and, after the events and the scheduled
  entries, the queue update is called for every queue index from that of 2v2 to that of 5v5
  and every bracket (so for the three arena queue types, when their numbers are in that
  order and convert back to them); otherwise, also when the countdown equals the elapsed
  time, the countdown is decremented by the elapsed time and no queue update is forced.
\<close>

theorem Update_forced_rated_arena_update:
  assumes "CONFIG_ARENA_MAX_RATING_DIFFERENCE cfg \<noteq> 0"
    and "CONFIG_ARENA_RATED_UPDATE_TIMER cfg \<noteq> 0"
    and "length (m_QueueUpdateScheduler s) < 256"
    and "\<not> BATTLEGROUND_OBJECTIVE_UPDATE_INTERVAL h < m_UpdateTimer s + diff \<or> sweep_ready s"
    and "QueueTypeId_value h BATTLEGROUND_QUEUE_2v2 \<le> QueueTypeId_value h BATTLEGROUND_QUEUE_3v3"
    and "QueueTypeId_value h BATTLEGROUND_QUEUE_3v3 \<le> QueueTypeId_value h BATTLEGROUND_QUEUE_5v5"
    and "\<forall>q \<in> {BATTLEGROUND_QUEUE_2v2, BATTLEGROUND_QUEUE_3v3, BATTLEGROUND_QUEUE_5v5}.
           QueueTypeId_cast h (QueueTypeId_value h q) = q"
  shows "\<exists>s' calls.
           Update h cfg bg_Update diff s = Some (Inr (s', calls))
           \<and> (m_NextRatedArenaUpdate s < diff \<longrightarrow>
                m_NextRatedArenaUpdate s' = CONFIG_ARENA_RATED_UPDATE_TIMER cfg
                \<and> calls = map (\<lambda>qtype. UpdateEvents qtype diff)
                            [QueueTypeId_value h BATTLEGROUND_QUEUE_NONE ..<
                             MAX_BATTLEGROUND_QUEUE_TYPES h]
                          @ map (scheduled_call h diff) (m_QueueUpdateScheduler s)
                          @ forced_calls h diff
                \<and> (\<forall>q \<in> {BATTLEGROUND_QUEUE_2v2, BATTLEGROUND_QUEUE_3v3, BATTLEGROUND_QUEUE_5v5}.
                     \<forall>bracket \<in> {BG_BRACKET_ID_FIRST h ..< MAX_BATTLEGROUND_BRACKETS h}.
                       BattlegroundQueueUpdate (QueueTypeId_value h q) diff BATTLEGROUND_AA bracket
                         (BGArenaType q) True 0 \<in> set calls))
           \<and> (\<not> m_NextRatedArenaUpdate s < diff \<longrightarrow>
                m_NextRatedArenaUpdate s' = m_NextRatedArenaUpdate s - diff
                \<and> calls = map (\<lambda>qtype. UpdateEvents qtype diff)
                            [QueueTypeId_value h BATTLEGROUND_QUEUE_NONE ..<
                             MAX_BATTLEGROUND_QUEUE_TYPES h]
                          @ map (scheduled_call h diff) (m_QueueUpdateScheduler s))"
proof -
  from Update_returns [OF assms(4,3), of cfg bg_Update]
  obtain s' calls where u: "Update h cfg bg_Update diff s = Some (Inr (s', calls))" by blast
  note r = Update_rated_arena_update [OF assms(1,2) u]
  have m: "BattlegroundQueueUpdate (QueueTypeId_value h q) diff BATTLEGROUND_AA bracket
            (BGArenaType q) True 0 \<in> set (forced_calls h diff)"
    if "q \<in> {BATTLEGROUND_QUEUE_2v2, BATTLEGROUND_QUEUE_3v3, BATTLEGROUND_QUEUE_5v5}"
      and "bracket \<in> {BG_BRACKET_ID_FIRST h ..< MAX_BATTLEGROUND_BRACKETS h}" for q bracket
    using that assms(5,6,7) by (intro forced_calls_member) auto
  have "(m_NextRatedArenaUpdate s < diff \<longrightarrow>
                m_NextRatedArenaUpdate s' = CONFIG_ARENA_RATED_UPDATE_TIMER cfg
                \<and> calls = map (\<lambda>qtype. UpdateEvents qtype diff)
                            [QueueTypeId_value h BATTLEGROUND_QUEUE_NONE ..<
                             MAX_BATTLEGROUND_QUEUE_TYPES h]
                          @ map (scheduled_call h diff) (m_QueueUpdateScheduler s)
                          @ forced_calls h diff
                \<and> (\<forall>q \<in> {BATTLEGROUND_QUEUE_2v2, BATTLEGROUND_QUEUE_3v3, BATTLEGROUND_QUEUE_5v5}.
                     \<forall>bracket \<in> {BG_BRACKET_ID_FIRST h ..< MAX_BATTLEGROUND_BRACKETS h}.
                       BattlegroundQueueUpdate (QueueTypeId_value h q) diff BATTLEGROUND_AA bracket
                         (BGArenaType q) True 0 \<in> set calls))
           \<and> (\<not> m_NextRatedArenaUpdate s < diff \<longrightarrow>
                m_NextRatedArenaUpdate s' = m_NextRatedArenaUpdate s - diff
                \<and> calls = map (\<lambda>qtype. UpdateEvents qtype diff)
                            [QueueTypeId_value h BATTLEGROUND_QUEUE_NONE ..<
                             MAX_BATTLEGROUND_QUEUE_TYPES h]
                          @ map (scheduled_call h diff) (m_QueueUpdateScheduler s))"
  proof (cases "m_NextRatedArenaUpdate s < diff")
    case True
    with r m show ?thesis by simp
  next
    case False
    with r show ?thesis by simp
  qed
  with u show ?thesis by blast
qed

theorem Update_forced_rated_arena_update_witness:
  "CONFIG_ARENA_MAX_RATING_DIFFERENCE example_config \<noteq> 0
   \<and> CONFIG_ARENA_RATED_UPDATE_TIMER example_config \<noteq> 0
   \<and> length (m_QueueUpdateScheduler (example_mgr_live\<lparr>m_NextRatedArenaUpdate := 4\<rparr>)) < 256
   \<and> BATTLEGROUND_OBJECTIVE_UPDATE_INTERVAL example_header
       < m_UpdateTimer (example_mgr_live\<lparr>m_NextRatedArenaUpdate := 4\<rparr>) + 1500
   \<and> sweep_ready (example_mgr_live\<lparr>m_NextRatedArenaUpdate := 4\<rparr>)
   \<and> m_NextRatedArenaUpdate (example_mgr_live\<lparr>m_NextRatedArenaUpdate := 4\<rparr>) < 1500
   \<and> (\<exists>s'. Update example_header example_config example_bg_Update 1500
               (example_mgr_live\<lparr>m_NextRatedArenaUpdate := 4\<rparr>)
             = Some (Inr (s',
                   [UpdateEvents 0 1500, UpdateEvents 1 1500, UpdateEvents 2 1500,
                    UpdateEvents 3 1500, UpdateEvents 4 1500, UpdateEvents 5 1500,
                    UpdateEvents 6 1500, UpdateEvents 7 1500, UpdateEvents 8 1500,
                    UpdateEvents 9 1500, UpdateEvents 10 1500, UpdateEvents 11 1500,
                    UpdateEvents 12 1500,
                    BattlegroundQueueUpdate 10 1500 BATTLEGROUND_AA 0 2 True 0,
                    BattlegroundQueueUpdate 10 1500 BATTLEGROUND_AA 1 2 True 0,
                    BattlegroundQueueUpdate 11 1500 BATTLEGROUND_AA 0 3 True 0,
                    BattlegroundQueueUpdate 11 1500 BATTLEGROUND_AA 1 3 True 0,
                    BattlegroundQueueUpdate 12 1500 BATTLEGROUND_AA 0 5 True 0,
                    BattlegroundQueueUpdate 12 1500 BATTLEGROUND_AA 1 5 True 0]))
           \<and> m_NextRatedArenaUpdate s' = 5000)
   \<and> \<not> BATTLEGROUND_OBJECTIVE_UPDATE_INTERVAL example_header
         < m_UpdateTimer (example_mgr\<lparr>m_NextRatedArenaUpdate := 7\<rparr>) + 5
   \<and> \<not> m_NextRatedArenaUpdate (example_mgr\<lparr>m_NextRatedArenaUpdate := 7\<rparr>) < 5
   \<and> (\<exists>s'. Update example_header example_config example_bg_Update 5
               (example_mgr\<lparr>m_NextRatedArenaUpdate := 7\<rparr>)
             = Some (Inr (s',
                   [UpdateEvents 0 5, UpdateEvents 1 5, UpdateEvents 2 5, UpdateEvents 3 5,
                    UpdateEvents 4 5, UpdateEvents 5 5, UpdateEvents 6 5, UpdateEvents 7 5,
                    UpdateEvents 8 5, UpdateEvents 9 5, UpdateEvents 10 5, UpdateEvents 11 5,
                    UpdateEvents 12 5]))
           \<and> m_NextRatedArenaUpdate s' = 2)"
proof -
  let ?live = "example_mgr_live\<lparr>m_NextRatedArenaUpdate := 4\<rparr>"
  let ?idle = "example_mgr\<lparr>m_NextRatedArenaUpdate := 7\<rparr>"
  have c: "CONFIG_ARENA_MAX_RATING_DIFFERENCE example_config \<noteq> 0"
      "CONFIG_ARENA_RATED_UPDATE_TIMER example_config \<noteq> 0"
    by (simp_all add: example_config_def)
  have t: "CONFIG_ARENA_RATED_UPDATE_TIMER example_config = 5000"
    by (simp add: example_config_def)
  have n: "QueueTypeId_value example_header BATTLEGROUND_QUEUE_2v2
             \<le> QueueTypeId_value example_header BATTLEGROUND_QUEUE_3v3"
      "QueueTypeId_value example_header BATTLEGROUND_QUEUE_3v3
             \<le> QueueTypeId_value example_header BATTLEGROUND_QUEUE_5v5"
      "\<forall>q \<in> {BATTLEGROUND_QUEUE_2v2, BATTLEGROUND_QUEUE_3v3, BATTLEGROUND_QUEUE_5v5}.
           QueueTypeId_cast example_header (QueueTypeId_value example_header q) = q"
    by (simp_all add: example_header_def example_QueueTypeId_cast_def)
  have e: "map (\<lambda>qtype. UpdateEvents qtype diff)
             [QueueTypeId_value example_header BATTLEGROUND_QUEUE_NONE ..<
              MAX_BATTLEGROUND_QUEUE_TYPES example_header]
           = [UpdateEvents 0 diff, UpdateEvents 1 diff, UpdateEvents 2 diff, UpdateEvents 3 diff,
              UpdateEvents 4 diff, UpdateEvents 5 diff, UpdateEvents 6 diff, UpdateEvents 7 diff,
              UpdateEvents 8 diff, UpdateEvents 9 diff, UpdateEvents 10 diff, UpdateEvents 11 diff,
              UpdateEvents 12 diff]" for diff
    by (simp add: example_header_def upt_conv_Cons)
  have f: "forced_calls example_header 1500
             = [BattlegroundQueueUpdate 10 1500 BATTLEGROUND_AA 0 2 True 0,
                    BattlegroundQueueUpdate 10 1500 BATTLEGROUND_AA 1 2 True 0,
                    BattlegroundQueueUpdate 11 1500 BATTLEGROUND_AA 0 3 True 0,
                    BattlegroundQueueUpdate 11 1500 BATTLEGROUND_AA 1 3 True 0,
                    BattlegroundQueueUpdate 12 1500 BATTLEGROUND_AA 0 5 True 0,
                    BattlegroundQueueUpdate 12 1500 BATTLEGROUND_AA 1 5 True 0]"
    by code_simp
  have q1: "m_QueueUpdateScheduler ?live = []"
    by code_simp
  have i1: "BATTLEGROUND_OBJECTIVE_UPDATE_INTERVAL example_header < m_UpdateTimer ?live + 1500"
    by code_simp
  have r1: "sweep_ready ?live"
    by code_simp
  have l1: "m_NextRatedArenaUpdate ?live < 1500" by simp
  have q2: "m_QueueUpdateScheduler ?idle = []" by simp
  have i2: "\<not> BATTLEGROUND_OBJECTIVE_UPDATE_INTERVAL example_header < m_UpdateTimer ?idle + 5"
    by (simp add: example_header_def)
  have l2: "\<not> m_NextRatedArenaUpdate ?idle < 5" "m_NextRatedArenaUpdate ?idle - 5 = 2" by simp_all
  note t1 = Update_forced_rated_arena_update [where cfg = example_config and h = example_header
              and s = ?live and diff = 1500 and bg_Update = example_bg_Update]
  note t2 = Update_forced_rated_arena_update [where cfg = example_config and h = example_header
              and s = ?idle and diff = 5 and bg_Update = example_bg_Update]
  from t1 c n q1 r1 l1 have
    "\<exists>s'. Update example_header example_config example_bg_Update 1500 ?live
             = Some (Inr (s', map (\<lambda>qtype. UpdateEvents qtype 1500)
                            [QueueTypeId_value example_header BATTLEGROUND_QUEUE_NONE ..<
                             MAX_BATTLEGROUND_QUEUE_TYPES example_header]
                          @ forced_calls example_header 1500))
           \<and> m_NextRatedArenaUpdate s' = 5000"
    by (auto simp: t)
  moreover from t2 c n q2 i2 l2 have
    "\<exists>s'. Update example_header example_config example_bg_Update 5 ?idle
             = Some (Inr (s', map (\<lambda>qtype. UpdateEvents qtype 5)
                            [QueueTypeId_value example_header BATTLEGROUND_QUEUE_NONE ..<
                             MAX_BATTLEGROUND_QUEUE_TYPES example_header]))
           \<and> m_NextRatedArenaUpdate s' = 2"
    by auto
  ultimately show ?thesis
    using c q1 i1 r1 l1 i2 l2 by (simp add: e f)
qed

text \<open>
  Claim C4 says that a call of \<^verbatim>\<open>Update\<close> whose accumulated timer stays within the interval
  drains and dispatches every pending entry in that call. The loop that dispatches them
  counts with a \<^verbatim>\<open>uint8\<close>: with 256 entries pending (here after 256 calls of
  \<^verbatim>\<open>ScheduleQueueUpdate\<close> with different ratings) the counter wraps to 0 before it reaches
  the size, and the call does not return. With fewer than 256 entries the call does what
  the claim says (lemma \<open>Update_below_interval\<close>).
\<close>

theorem Update_256_scheduled_does_not_return:
  "\<not> BATTLEGROUND_OBJECTIVE_UPDATE_INTERVAL example_header < m_UpdateTimer example_mgr_256 + 100
   \<and> Update example_header example_config bg_Update 100 example_mgr_256 = None"
proof -
  have a: "\<not> BATTLEGROUND_OBJECTIVE_UPDATE_INTERVAL example_header < m_UpdateTimer example_mgr_256 + 100"
    by (simp add: example_mgr_256_def example_header_def)
  then have "update_instances example_header bg_Update 100 example_mgr_256
          = Inr (example_mgr_256\<lparr>m_UpdateTimer := m_UpdateTimer example_mgr_256 + 100\<rparr>)"
    by (simp add: update_instances_def Let_def)
  then have "Update example_header example_config bg_Update 100 example_mgr_256 = None"
    using example_mgr_256_length by (rule Update_diverges)
  with a show ?thesis by simp
qed

section \<open>Properties of the template instance\<close>




end
